theory Spec2Isabelle
  imports
    Complex_Main
    "HOL-Library.Multiset"
    "HOL-Library.Sublist"
    "HOL-Library.Char_ord"
    "HOL-Library.List_Lexorder"
    "HOL-Library.Option_ord"
begin

section \<open>The movie API: data-access and response-shaping layer\<close>

text \<open>
  The service module \<^verbatim>\<open>services/movies.service.ts\<close> exports four functions:
  \<^verbatim>\<open>getPaginatedMovies\<close> (the spec's listPage), \<^verbatim>\<open>getMovieDetailsByImdbId\<close> (getDetail),
  \<^verbatim>\<open>getMoviesByYear\<close> (listByYear) and \<^verbatim>\<open>getMoviesByGenre\<close> (listByGenre). Each wraps one
  or two callbacks of the sqlite3 client in a promise. The model below keeps their names and
  their branch order. What is not code of the service is made explicit:
  \<^item> \<^verbatim>\<open>JSON.parse\<close> belongs to the platform; it is the parameter \<open>parse\<close> of every function,
    with \<open>None\<close> standing for the \<^verbatim>\<open>SyntaxError\<close> it throws;
  \<^item> the two stores are a record of three functions, one per client method the service
    calls (\<^verbatim>\<open>moviesDb.all\<close>, \<^verbatim>\<open>moviesDb.get\<close>, \<^verbatim>\<open>ratingsDb.get\<close>), each returning the error
    or the rows its callback receives; the unit tests replace exactly these three by stubs;
  \<^item> \<open>sqlite\<close> implements that record for given table contents, following the SQL text of
    the five queries and what SQLite and its client do with the bound parameters;
  \<^item> every function returns, beside the outcome of its promise, the list of the store calls
    it issued, in order.
  Text is a list of bytes, the UTF-8 form in which the client binds and SQLite stores it.
\<close>

subsection \<open>Values\<close>

datatype json =
    JNull
  | JBool bool
  | JNum rat
  | JStr string
  | JArr "json list"
  | JObj "(string \<times> json) list"

type_synonym json_parser = "string \<Rightarrow> json option"

datatype js_error = SyntaxError

datatype store_error = StoreError string

text \<open>
  A promise of the service ends in one of three ways: \<^verbatim>\<open>resolve(v)\<close>, \<^verbatim>\<open>reject(err)\<close> with the
  error the store handed to the callback, or an exception thrown by \<^verbatim>\<open>JSON.parse\<close> while the
  callback builds the result, in which case neither \<^verbatim>\<open>resolve\<close> nor \<^verbatim>\<open>reject\<close> is reached and
  no value is produced.
\<close>

datatype 'a outcome = Resolved 'a | Rejected store_error | Thrown js_error

subsection \<open>Numbers\<close>

text \<open>
  A JavaScript number is an IEEE double. The page, the offset and the budget are integers
  held in doubles: the model keeps the mathematical value of such a number, rounds where the
  code computes or converts, and has the two infinities that a product can overflow to.

  \<open>round53\<close> is the conversion of an integer to the nearest double, ties to the even
  significand: an integer below \<open>2^53\<close> in absolute value is kept, a larger one keeps its 53
  leading bits. \<open>to_double\<close> adds the overflow beyond the largest double.
\<close>

datatype number = Finite int | PosInfinity | NegInfinity

fun shift53 :: "nat \<Rightarrow> nat" where
  "shift53 m = (if m < 2 ^ 53 then 0 else Suc (shift53 (m div 2)))"

declare shift53.simps [simp del]

definition round53_nat :: "nat \<Rightarrow> nat" where
  "round53_nat m =
     (let e = shift53 m; q = m div 2 ^ e; r = m mod 2 ^ e
      in if 2 ^ e < 2 * r \<or> (2 * r = 2 ^ e \<and> odd q) then (q + 1) * 2 ^ e else q * 2 ^ e)"

definition round53 :: "int \<Rightarrow> int" where
  "round53 n = (if n < 0 then - int (round53_nat (nat (- n))) else int (round53_nat (nat n)))"

definition to_double :: "int \<Rightarrow> number" where
  "to_double n =
     (let r = round53 n
      in if 2 ^ 1024 \<le> r then PosInfinity
         else if r \<le> - (2 ^ 1024) then NegInfinity
         else Finite r)"

text \<open>
  \<^verbatim>\<open>x - k\<close> and \<^verbatim>\<open>x * k\<close> for an integer constant \<open>k\<close> (in the source 1, and the positive page
  size 50): the exact result, rounded.
\<close>

definition js_minus :: "number \<Rightarrow> int \<Rightarrow> number" where
  "js_minus x k = (case x of Finite a \<Rightarrow> to_double (a - k) | _ \<Rightarrow> x)"

definition js_times :: "number \<Rightarrow> int \<Rightarrow> number" where
  "js_times x k = (case x of Finite a \<Rightarrow> to_double (a * k) | _ \<Rightarrow> x)"

text \<open>
  \<^verbatim>\<open>Number::toString\<close> of an integer-valued number, which is what the template literal
  \<^verbatim>\<open>`$${row.budget}`\<close> applies. It writes the shortest decimal \<open>s * 10^e\<close> that still rounds to
  the number (of several with equally many digits the nearest one, of two equally near the
  even one): the digits of \<open>s\<close> and \<open>e\<close> zeros while that makes at most 21 digits, and the
  form \<^verbatim>\<open>d.ddde+n\<close> beyond. Up to \<open>2^53\<close>, where every integer is a double, the shortest
  decimal is the integer itself. \<open>shortest x d k\<close> tries \<open>k\<close>, \<open>k + 1\<close>, ... digits for a
  number \<open>x\<close> of \<open>d\<close> digits; the one decimal of \<open>d + 1\<close> digits that can round down to \<open>x\<close>
  is \<open>10^d\<close>.
\<close>

definition digit_char :: "nat \<Rightarrow> char" where
  "digit_char d = ''0123456789'' ! d"

fun digits_of :: "nat \<Rightarrow> string" where
  "digits_of n = (if n < 10 then [digit_char n] else digits_of (n div 10) @ [digit_char (n mod 10)])"

declare digits_of.simps [simp del]

definition rounds_to :: "nat \<Rightarrow> nat \<Rightarrow> nat \<Rightarrow> nat \<Rightarrow> bool" where
  "rounds_to x k e s = (s < 10 ^ k \<and> round53_nat (s * 10 ^ e) = x)"

function shortest :: "nat \<Rightarrow> nat \<Rightarrow> nat \<Rightarrow> nat \<times> nat" where
  "shortest x d k =
     (if d \<le> k then (x, 0)
      else
        (let e = d - k; lo = x div 10 ^ e; hi = lo + 1
         in if rounds_to x k e lo \<and> rounds_to x k e hi then
              (if x - lo * 10 ^ e < hi * 10 ^ e - x then (lo, e)
               else if hi * 10 ^ e - x < x - lo * 10 ^ e then (hi, e)
               else if even lo then (lo, e) else (hi, e))
            else if rounds_to x k e lo then (lo, e)
            else if rounds_to x k e hi then (hi, e)
            else shortest x d (Suc k)))"
  by pat_completeness auto
termination
  by (relation "measure (\<lambda>(x, d, k). d - k)") auto

declare shortest.simps [simp del]

definition shortest_decimal :: "nat \<Rightarrow> nat \<times> nat" where
  "shortest_decimal x =
     (let d = length (digits_of x)
      in if x \<le> 2 ^ 53 then (x, 0)
         else if round53_nat (10 ^ d) = x then (1, d)
         else shortest x d 1)"

definition Number_toString_nat :: "nat \<Rightarrow> string" where
  "Number_toString_nat x =
     (let (s, e) = shortest_decimal x; ds = digits_of s; n = length ds + e
      in if n \<le> 21 then ds @ replicate e CHR ''0''
         else if length ds = 1 then ds @ ''e+'' @ digits_of (n - 1)
         else hd ds # CHR ''.'' # tl ds @ ''e+'' @ digits_of (n - 1))"

definition Number_toString :: "int \<Rightarrow> string" where
  "Number_toString n =
     (if n < 0 then CHR ''-'' # Number_toString_nat (nat (- n)) else Number_toString_nat (nat n))"

subsection \<open>types/movie.interface.ts\<close>

text \<open>
  \<open>MovieRow\<close> is a row of the \<^verbatim>\<open>movies\<close> table. A column that may hold SQL NULL is an option.
  \<open>Movie\<close> is the five-column row the list queries select (the source types those rows
  \<^verbatim>\<open>Movie[]\<close>); \<open>MovieItem\<close> is the object the list functions build from it, with \<^verbatim>\<open>genres\<close>
  replaced by the parsed value and \<^verbatim>\<open>budget\<close> by its display string.
  In \<open>MovieRow\<close> the integers are the stored ones (SQLite keeps an INTEGER in 64 bits);
  in \<open>Movie\<close> and in the row the detail statement delivers, budget and runtime are the
  JavaScript numbers the client makes of them. The internal ids are taken to be integers a
  JavaScript number holds exactly (below \<open>2^53\<close>), and are passed on as stored. Ratings and
  their mean are exact rationals, not doubles.
\<close>

record MovieRow =
  movieId :: int
  imdbId :: string
  title :: string
  overview :: "string option"
  productionCompanies :: "string option"
  releaseDate :: "string option"
  budget :: "int option"
  revenue :: "int option"
  runtime :: "int option"
  language :: string
  genres :: "string option"
  status :: "string option"

record Movie =
  imdbId :: string
  title :: string
  genres :: "string option"
  releaseDate :: "string option"
  budget :: "int option"

record MovieItem =
  imdbId :: string
  title :: string
  genres :: json
  releaseDate :: "string option"
  budget :: string

record MovieDetails =
  imdbId :: string
  title :: string
  description :: "string option"
  releaseDate :: "string option"
  budget :: string
  runtime :: "int option"
  averageRating :: "rat option"
  genres :: json
  originalLanguage :: string
  productionCompanies :: json

text \<open>
  A row of the \<^verbatim>\<open>ratings\<close> table: the internal id of the movie and one rating sample, a
  number (a NULL sample, which \<^verbatim>\<open>AVG\<close> would skip, is left out of the model).
\<close>

record Rating =
  movieId :: int
  rating :: rat

subsection \<open>The store clients\<close>

datatype sort_order = Asc | Desc

text \<open>
  The three statements run through \<^verbatim>\<open>moviesDb.all\<close>, each with its bound parameters in the
  order of the source's parameter array:
  \<^item> \<open>SelectPage pageSize offset\<close>: \<^verbatim>\<open>SELECT imdbId, title, genres, releaseDate, budget FROM movies LIMIT ? OFFSET ?\<close>
  \<^item> \<open>SelectByYear sortOrder year limit offset\<close>: the same columns
    \<^verbatim>\<open>WHERE substr(releaseDate, 1, 4) = ? ORDER BY releaseDate ASC|DESC LIMIT ? OFFSET ?\<close>
  \<^item> \<open>SelectByGenre genreMatch limit offset\<close>: the same columns
    \<^verbatim>\<open>WHERE m.genres LIKE ? LIMIT ? OFFSET ?\<close>
\<close>

datatype movies_query =
    SelectPage number number
  | SelectByYear sort_order string number number
  | SelectByGenre string number number

text \<open>
  \<open>MoviesGet imdbId\<close> is the detail statement (\<^verbatim>\<open>WHERE imdbId = ?\<close>) run through
  \<^verbatim>\<open>moviesDb.get\<close>; \<open>RatingsGet movieId\<close> is
  \<^verbatim>\<open>SELECT AVG(rating) as averageRating FROM ratings WHERE movieId = ?\<close> run through
  \<^verbatim>\<open>ratingsDb.get\<close>.
\<close>

datatype store_call = MoviesAll movies_query | MoviesGet string | RatingsGet int

text \<open>
  The row of the rating statement has the single column \<^verbatim>\<open>averageRating\<close>: the outer option
  is the row itself (\<^verbatim>\<open>undefined\<close> when the client yields none), the inner one the column
  (SQL NULL).
\<close>

record ports =
  moviesDb_all :: "movies_query \<Rightarrow> store_error + Movie list"
  moviesDb_get :: "string \<Rightarrow> store_error + MovieRow option"
  ratingsDb_get :: "int \<Rightarrow> store_error + rat option option"

subsection \<open>Formatting\<close>

text \<open>
  The expression \<^verbatim>\<open>b !== null && b !== undefined ? `$${b}` : 'N/A'\<close>, which the source
  repeats in each of the four functions.
\<close>

definition formatBudget :: "int option \<Rightarrow> string" where
  "formatBudget b = (case b of Some n \<Rightarrow> CHR ''$'' # Number_toString n | None \<Rightarrow> ''N/A'')"

text \<open>
  \<^verbatim>\<open>JSON.parse(movie.genres)\<close>, as \<^verbatim>\<open>getPaginatedMovies\<close> calls it: the argument is converted
  to a string first, and the string of \<^verbatim>\<open>null\<close> is \<^verbatim>\<open>"null"\<close>.
\<close>

definition JSON_parse :: "json_parser \<Rightarrow> string option \<Rightarrow> js_error + json" where
  "JSON_parse parse text =
     (case parse (case text of None \<Rightarrow> ''null'' | Some s \<Rightarrow> s) of
        None \<Rightarrow> Inl SyntaxError
      | Some v \<Rightarrow> Inr v)"

text \<open>
  \<^verbatim>\<open>row.genres ? JSON.parse(row.genres) : []\<close>, as the other three functions have it: \<^verbatim>\<open>null\<close>
  and the empty string are falsy.
\<close>

definition parse_or_empty :: "json_parser \<Rightarrow> string option \<Rightarrow> js_error + json" where
  "parse_or_empty parse text =
     (if text \<noteq> None \<and> text \<noteq> Some [] then JSON_parse parse text else Inr (JArr []))"

text \<open>
  \<^verbatim>\<open>rows.map(f)\<close> where \<open>f\<close> may throw: the first exception ends the loop.
\<close>

fun map_rows :: "('a \<Rightarrow> js_error + 'b) \<Rightarrow> 'a list \<Rightarrow> js_error + 'b list" where
  "map_rows f [] = Inr []"
| "map_rows f (x # xs) =
     (case f x of
        Inl e \<Rightarrow> Inl e
      | Inr y \<Rightarrow> (case map_rows f xs of Inl e \<Rightarrow> Inl e | Inr ys \<Rightarrow> Inr (y # ys)))"

definition settle :: "js_error + 'a \<Rightarrow> 'a outcome" where
  "settle r = (case r of Inl e \<Rightarrow> Thrown e | Inr v \<Rightarrow> Resolved v)"

text \<open>The object built from a row in \<^verbatim>\<open>getPaginatedMovies\<close>.\<close>

definition formatMovie :: "json_parser \<Rightarrow> Movie \<Rightarrow> js_error + MovieItem" where
  "formatMovie parse movie =
     (case JSON_parse parse (Movie.genres movie) of
        Inl e \<Rightarrow> Inl e
      | Inr g \<Rightarrow> Inr \<lparr>MovieItem.imdbId = Movie.imdbId movie,
                     MovieItem.title = Movie.title movie,
                     MovieItem.genres = g,
                     MovieItem.releaseDate = Movie.releaseDate movie,
                     MovieItem.budget = formatBudget (Movie.budget movie)\<rparr>)"

text \<open>The object built from a row in \<^verbatim>\<open>getMoviesByYear\<close> and \<^verbatim>\<open>getMoviesByGenre\<close>.\<close>

definition formatRow :: "json_parser \<Rightarrow> Movie \<Rightarrow> js_error + MovieItem" where
  "formatRow parse row =
     (case parse_or_empty parse (Movie.genres row) of
        Inl e \<Rightarrow> Inl e
      | Inr g \<Rightarrow> Inr \<lparr>MovieItem.imdbId = Movie.imdbId row,
                     MovieItem.title = Movie.title row,
                     MovieItem.genres = g,
                     MovieItem.releaseDate = Movie.releaseDate row,
                     MovieItem.budget = formatBudget (Movie.budget row)\<rparr>)"

text \<open>
  \<^verbatim>\<open>parseFloat(x.toFixed(1))\<close>. \<^verbatim>\<open>toFixed(1)\<close> writes, after the sign of \<open>x\<close>, the integer \<open>n\<close>
  for which \<open>n / 10\<close> is nearest to \<open>|x|\<close> (the larger one of two), as digits with a point
  before the last; \<^verbatim>\<open>parseFloat\<close> reads that text back as a number. The model computes
  with exact rationals; where \<open>x\<close> lies half-way between two tenths, a double that only
  approximates \<open>x\<close> may round the other way.
\<close>

definition parseFloat_toFixed1 :: "rat \<Rightarrow> rat" where
  "parseFloat_toFixed1 x =
     (if x < 0 then - (of_int \<lfloor>(- x) * 10 + 1 / 2\<rfloor> / 10)
      else of_int \<lfloor>x * 10 + 1 / 2\<rfloor> / 10)"

text \<open>
  \<^verbatim>\<open>ratingRow?.averageRating ? parseFloat(ratingRow.averageRating.toFixed(1)) : null\<close>:
  the test is JavaScript truthiness, under which \<^verbatim>\<open>undefined\<close>, \<^verbatim>\<open>null\<close> and the number 0
  are all falsy.
\<close>

definition formatRating :: "rat option option \<Rightarrow> rat option" where
  "formatRating ratingRow =
     (case ratingRow of
        None \<Rightarrow> None
      | Some None \<Rightarrow> None
      | Some (Some a) \<Rightarrow> (if a \<noteq> 0 then Some (parseFloat_toFixed1 a) else None))"

subsection \<open>services/movies.service.ts\<close>

text \<open>
  \<open>page\<close> is the integer the caller passes, held in a JavaScript number; the offset
  \<^verbatim>\<open>(page - 1) * pageSize\<close> is computed in doubles.
\<close>

definition getPaginatedMovies ::
  "json_parser \<Rightarrow> ports \<Rightarrow> int \<Rightarrow> MovieItem list outcome \<times> store_call list" where
  "getPaginatedMovies parse db page =
     (let pageSize = 50;
          offset = js_times (js_minus (Finite page) 1) pageSize;
          query = SelectPage (Finite pageSize) offset
      in (case moviesDb_all db query of
            Inl err \<Rightarrow> Rejected err
          | Inr rows \<Rightarrow> settle (map_rows (formatMovie parse) rows),
          [MoviesAll query]))"

definition getMovieDetailsByImdbId ::
  "json_parser \<Rightarrow> ports \<Rightarrow> string \<Rightarrow> MovieDetails option outcome \<times> store_call list" where
  "getMovieDetailsByImdbId parse db imdbId' =
     (case moviesDb_get db imdbId' of
        Inl err \<Rightarrow> (Rejected err, [MoviesGet imdbId'])
      | Inr None \<Rightarrow> (Resolved None, [MoviesGet imdbId'])
      | Inr (Some row) \<Rightarrow>
          (let movieId' = MovieRow.movieId row
           in (case ratingsDb_get db movieId' of
                 Inl ratingErr \<Rightarrow> Rejected ratingErr
               | Inr ratingRow \<Rightarrow>
                   (case parse_or_empty parse (MovieRow.genres row) of
                      Inl e \<Rightarrow> Thrown e
                    | Inr g \<Rightarrow>
                        (case parse_or_empty parse (MovieRow.productionCompanies row) of
                           Inl e \<Rightarrow> Thrown e
                         | Inr pc \<Rightarrow>
                             Resolved (Some
                               \<lparr>MovieDetails.imdbId = MovieRow.imdbId row,
                                MovieDetails.title = MovieRow.title row,
                                description = overview row,
                                MovieDetails.releaseDate = MovieRow.releaseDate row,
                                MovieDetails.budget = formatBudget (MovieRow.budget row),
                                MovieDetails.runtime = MovieRow.runtime row,
                                averageRating = formatRating ratingRow,
                                MovieDetails.genres = g,
                                originalLanguage = language row,
                                MovieDetails.productionCompanies = pc\<rparr>))),
               [MoviesGet imdbId', RatingsGet movieId'])))"

definition getMoviesByYear ::
  "json_parser \<Rightarrow> ports \<Rightarrow> string \<Rightarrow> int \<Rightarrow> sort_order \<Rightarrow> MovieItem list outcome \<times> store_call list" where
  "getMoviesByYear parse db year page sortOrder =
     (let limit = 50;
          offset = js_times (js_minus (Finite page) 1) limit;
          query = SelectByYear sortOrder year (Finite limit) offset
      in (case moviesDb_all db query of
            Inl err \<Rightarrow> Rejected err
          | Inr rows \<Rightarrow> settle (map_rows (formatRow parse) rows),
          [MoviesAll query]))"

definition getMoviesByGenre ::
  "json_parser \<Rightarrow> ports \<Rightarrow> string \<Rightarrow> int \<Rightarrow> MovieItem list outcome \<times> store_call list" where
  "getMoviesByGenre parse db genre page =
     (let limit = 50;
          offset = js_times (js_minus (Finite page) 1) limit;
          genreMatch = ''%'' @ genre @ ''%'';
          query = SelectByGenre genreMatch (Finite limit) offset
      in (case moviesDb_all db query of
            Inl err \<Rightarrow> Rejected err
          | Inr rows \<Rightarrow> settle (map_rows (formatRow parse) rows),
          [MoviesAll query]))"

subsection \<open>The SQL of the five statements\<close>

text \<open>
  A number bound to \<^verbatim>\<open>LIMIT ?\<close> or \<^verbatim>\<open>OFFSET ?\<close> must be an integer: the client binds a
  number outside the 32-bit range as a double, and SQLite takes a double there only if it
  holds an integer strictly between \<open>-2^63\<close> and \<open>2^63\<close>; otherwise the statement fails
  with \<^verbatim>\<open>SQLITE_MISMATCH\<close> before it reads a row. A negative offset counts as zero, a
  negative limit as no limit.
\<close>

definition must_be_int :: "number \<Rightarrow> int option" where
  "must_be_int x =
     (case x of
        Finite a \<Rightarrow> if - (2 ^ 63) < a \<and> a < 2 ^ 63 then Some a else None
      | _ \<Rightarrow> None)"

definition datatype_mismatch :: store_error where
  "datatype_mismatch = StoreError ''SQLITE_MISMATCH: datatype mismatch''"

definition limit_offset :: "number \<Rightarrow> number \<Rightarrow> 'a list \<Rightarrow> store_error + 'a list" where
  "limit_offset limit offset xs =
     (case must_be_int limit of
        None \<Rightarrow> Inl datatype_mismatch
      | Some l \<Rightarrow>
          (case must_be_int offset of
             None \<Rightarrow> Inl datatype_mismatch
           | Some k \<Rightarrow> Inr (let ys = drop (nat k) xs in if l < 0 then ys else take (nat l) ys)))"

text \<open>
  The select list \<^verbatim>\<open>imdbId, title, genres, releaseDate, budget\<close>, and the row as the client
  hands it to the callback: a stored integer becomes a JavaScript number.
\<close>

definition select_columns :: "MovieRow \<Rightarrow> Movie" where
  "select_columns r =
     \<lparr>Movie.imdbId = MovieRow.imdbId r,
      Movie.title = MovieRow.title r,
      Movie.genres = MovieRow.genres r,
      Movie.releaseDate = MovieRow.releaseDate r,
      Movie.budget = map_option round53 (MovieRow.budget r)\<rparr>"

text \<open>
  SQLite reads text as a C string of UTF-8 characters. \<open>c_string\<close> is the text up to its
  first NUL byte. \<open>utf8_chars\<close> cuts it into characters the way SQLite steps over them: a
  byte of \<open>0xC0\<close> or more takes all continuation bytes (\<open>0x80\<close> to \<open>0xBF\<close>) that follow it
  along, any other byte stands alone. \<open>code_point\<close> is the number SQLite reads from such a
  character, with its table for the leading byte, its 32-bit accumulator and its replacement
  \<open>0xFFFD\<close> for over-long forms, surrogates and the two non-characters.
\<close>

definition c_string :: "string \<Rightarrow> string" where
  "c_string s = takeWhile (\<lambda>c. c \<noteq> CHR 0x00) s"

definition is_continuation :: "char \<Rightarrow> bool" where
  "is_continuation c = (128 \<le> (of_char c :: nat) \<and> (of_char c :: nat) < 192)"

function utf8_chars :: "string \<Rightarrow> string list" where
  "utf8_chars [] = []"
| "utf8_chars (b # bs) =
     (if (192 :: nat) \<le> of_char b
      then (b # takeWhile is_continuation bs) # utf8_chars (dropWhile is_continuation bs)
      else [b] # utf8_chars bs)"
  by pat_completeness auto
termination
  by (relation "measure length") (auto simp: less_Suc_eq_le length_dropWhile_le)

definition utf8_lead :: "nat \<Rightarrow> nat" where
  "utf8_lead b =
     (if b < 224 then b mod 32
      else if b < 240 then b mod 16
      else if b < 248 then b mod 8
      else if b < 252 then b mod 4
      else if b < 254 then b mod 2
      else 0)"

definition code_point :: "string \<Rightarrow> nat" where
  "code_point bytes =
     (case bytes of
        [] \<Rightarrow> 0
      | b # bs \<Rightarrow>
          if (of_char b :: nat) < 192 then of_char b
          else
            (let c = foldl (\<lambda>a x. (a * 64 + of_char x mod 64) mod 2 ^ 32)
                       (utf8_lead (of_char b)) bs
             in if c < 128 \<or> (55296 \<le> c \<and> c < 57344) \<or> c = 65534 \<or> c = 65535
                then 65533 else c))"

definition utf8_codes :: "string \<Rightarrow> nat list" where
  "utf8_codes s = map code_point (utf8_chars (c_string s))"

text \<open>
  \<^verbatim>\<open>substr(X, 1, n)\<close>: the first \<open>n\<close> characters.
\<close>

definition substr :: "string \<Rightarrow> nat \<Rightarrow> string" where
  "substr s n = concat (take n (utf8_chars (c_string s)))"

text \<open>
  \<^verbatim>\<open>substr(releaseDate, 1, 4) = ?\<close>: NULL for a NULL date, and a comparison with NULL selects
  nothing; two texts are equal when their bytes are.
\<close>

definition year_matches :: "string \<Rightarrow> MovieRow \<Rightarrow> bool" where
  "year_matches year r = (map_option (\<lambda>date. substr date 4) (MovieRow.releaseDate r) = Some year)"

text \<open>
  \<^verbatim>\<open>X LIKE P\<close> with SQLite's defaults (no \<^verbatim>\<open>ESCAPE\<close>, \<^verbatim>\<open>case_sensitive_like\<close> off, which the
  source never turns on), character by character: \<^verbatim>\<open>%\<close> (37) matches any run of
  characters, \<^verbatim>\<open>_\<close> (95) any one character, and any other character matches itself, the 26
  ASCII letters without regard to case. A NULL text does not match.
\<close>

definition fold_case :: "nat \<Rightarrow> nat" where
  "fold_case c = (if 65 \<le> c \<and> c \<le> 90 then c + 32 else c)"

fun like :: "nat list \<Rightarrow> nat list \<Rightarrow> bool" where
  "like [] s = (s = [])"
| "like (c # p) [] = (c = 37 \<and> like p [])"
| "like (c # p) (d # s) =
     (if c = 37 then like p (d # s) \<or> like (c # p) s
      else (c = d \<or> (c < 128 \<and> d < 128 \<and> fold_case c = fold_case d) \<or> c = 95) \<and> like p s)"

definition sql_like :: "string \<Rightarrow> string \<Rightarrow> bool" where
  "sql_like pattern text = like (utf8_codes pattern) (utf8_codes text)"

definition genre_matches :: "string \<Rightarrow> MovieRow \<Rightarrow> bool" where
  "genre_matches genreMatch r =
     (case MovieRow.genres r of None \<Rightarrow> False | Some text \<Rightarrow> sql_like genreMatch text)"

text \<open>
  SQLite refuses a \<^verbatim>\<open>LIKE\<close> pattern of more than 50000 bytes when it evaluates the operator,
  that is at the first row it reads.
\<close>

definition pattern_too_complex :: store_error where
  "pattern_too_complex = StoreError ''SQLITE_ERROR: LIKE or GLOB pattern too complex''"

text \<open>
  \<^verbatim>\<open>ORDER BY releaseDate ASC|DESC\<close>: text compares byte by byte, NULL sorts below every text.
  SQLite leaves the order of rows with equal keys open; the model keeps their table order.
\<close>

definition date_le :: "sort_order \<Rightarrow> string option \<Rightarrow> string option \<Rightarrow> bool" where
  "date_le ord a b = (case ord of Asc \<Rightarrow> a \<le> b | Desc \<Rightarrow> b \<le> a)"

fun insert_by :: "('a \<Rightarrow> 'a \<Rightarrow> bool) \<Rightarrow> 'a \<Rightarrow> 'a list \<Rightarrow> 'a list" where
  "insert_by le x [] = [x]"
| "insert_by le x (y # ys) = (if le x y then x # y # ys else y # insert_by le x ys)"

fun order_by :: "('a \<Rightarrow> 'a \<Rightarrow> bool) \<Rightarrow> 'a list \<Rightarrow> 'a list" where
  "order_by le [] = []"
| "order_by le (x # xs) = insert_by le x (order_by le xs)"

definition by_releaseDate :: "sort_order \<Rightarrow> MovieRow \<Rightarrow> MovieRow \<Rightarrow> bool" where
  "by_releaseDate ord a b = date_le ord (MovieRow.releaseDate a) (MovieRow.releaseDate b)"

text \<open>
  The three list statements. The limit and offset are checked first; the genre statement
  then fails on an over-long pattern unless it reads no row (an empty table, or a limit of
  zero).
\<close>

definition sqlite_movies_all :: "MovieRow list \<Rightarrow> movies_query \<Rightarrow> store_error + Movie list" where
  "sqlite_movies_all movies q =
     (case q of
        SelectPage limit offset \<Rightarrow>
          map_sum id (map select_columns) (limit_offset limit offset movies)
      | SelectByYear ord year limit offset \<Rightarrow>
          map_sum id (map select_columns)
            (limit_offset limit offset
               (order_by (by_releaseDate ord) (filter (year_matches year) movies)))
      | SelectByGenre genreMatch limit offset \<Rightarrow>
          (case limit_offset limit offset (filter (genre_matches genreMatch) movies) of
             Inl e \<Rightarrow> Inl e
           | Inr rows \<Rightarrow>
               if limit \<noteq> Finite 0 \<and> movies \<noteq> [] \<and> 50000 < length genreMatch
               then Inl pattern_too_complex
               else Inr (map select_columns rows)))"

text \<open>
  \<^verbatim>\<open>WHERE imdbId = ?\<close> through \<^verbatim>\<open>get\<close>: the first row of the result, if any, with its
  budget and runtime as JavaScript numbers.
\<close>

definition detail_columns :: "MovieRow \<Rightarrow> MovieRow" where
  "detail_columns r =
     r\<lparr>MovieRow.budget := map_option round53 (MovieRow.budget r),
       MovieRow.runtime := map_option round53 (MovieRow.runtime r)\<rparr>"

definition sqlite_movies_get :: "MovieRow list \<Rightarrow> string \<Rightarrow> MovieRow option" where
  "sqlite_movies_get movies i =
     map_option detail_columns (find (\<lambda>r. MovieRow.imdbId r = i) movies)"

text \<open>
  \<^verbatim>\<open>SELECT AVG(rating) ... WHERE movieId = ?\<close>: an aggregate without \<^verbatim>\<open>GROUP BY\<close> always
  yields one row; its value is NULL over no rows and sum divided by count otherwise.
\<close>

definition samples :: "Rating list \<Rightarrow> int \<Rightarrow> rat list" where
  "samples ratings m = map rating (filter (\<lambda>r. Rating.movieId r = m) ratings)"

definition AVG :: "rat list \<Rightarrow> rat option" where
  "AVG xs = (if xs = [] then None else Some (sum_list xs / of_nat (length xs)))"

definition sqlite :: "MovieRow list \<Rightarrow> Rating list \<Rightarrow> ports" where
  "sqlite movies ratings =
     \<lparr>moviesDb_all = sqlite_movies_all movies,
      moviesDb_get = (\<lambda>i. Inr (sqlite_movies_get movies i)),
      ratingsDb_get = (\<lambda>m. Inr (Some (AVG (samples ratings m))))\<rparr>"

subsection \<open>Notions used in the statements\<close>

text \<open>
  The genre text of a row can be read when \<^verbatim>\<open>JSON.parse\<close> accepts it: \<open>parses\<close> for the
  unguarded call of \<^verbatim>\<open>getPaginatedMovies\<close>, which reads NULL as the text \<^verbatim>\<open>null\<close>, and
  \<open>well_formed\<close> for the guarded call of the other three functions, which do not hand NULL
  or the empty text to the parser.
\<close>

definition parses :: "json_parser \<Rightarrow> string option \<Rightarrow> bool" where
  "parses parse text = (parse (case text of None \<Rightarrow> ''null'' | Some t \<Rightarrow> t) \<noteq> None)"

definition well_formed :: "json_parser \<Rightarrow> string option \<Rightarrow> bool" where
  "well_formed parse text = (case text of None \<Rightarrow> True | Some t \<Rightarrow> t = [] \<or> parse t \<noteq> None)"

text \<open>An item of a list result presents a record of the catalog.\<close>

definition presents :: "MovieRow \<Rightarrow> MovieItem \<Rightarrow> bool" where
  "presents r i =
     (MovieItem.imdbId i = MovieRow.imdbId r \<and>
      MovieItem.title i = MovieRow.title r \<and>
      MovieItem.releaseDate i = MovieRow.releaseDate r)"

subsection \<open>The budget display rule, in the words of the specification\<close>

text \<open>
  The rule as the specification states it, for comparison with \<open>formatBudget\<close>: an absent
  budget displays as \<^verbatim>\<open>N/A\<close>, zero as \<^verbatim>\<open>$0\<close>, and a positive \<open>n\<close> as a dollar sign followed
  by the decimal numeral of \<open>n\<close>: a non-empty run of digits and nothing else (so neither
  separators nor a decimal point), without a leading zero, whose value is \<open>n\<close>. The rule is
  stated for \<open>n\<close> up to \<open>2^53\<close>.
\<close>

definition digit_value :: "char \<Rightarrow> nat" where
  "digit_value c = of_char c - 48"

definition decimal_value :: "string \<Rightarrow> nat" where
  "decimal_value ds = foldl (\<lambda>a c. 10 * a + digit_value c) 0 ds"

definition decimal_numeral :: "string \<Rightarrow> int \<Rightarrow> bool" where
  "decimal_numeral ds n =
     (ds \<noteq> [] \<and> set ds \<subseteq> set ''0123456789'' \<and> hd ds \<noteq> CHR ''0'' \<and> int (decimal_value ds) = n)"

definition budget_display_spec :: "int option \<Rightarrow> string \<Rightarrow> bool" where
  "budget_display_spec b s =
     ((b = None \<longrightarrow> s = ''N/A'') \<and>
      (b = Some 0 \<longrightarrow> s = ''$0'') \<and>
      (\<forall>n. b = Some n \<and> 0 < n \<and> n \<le> 2 ^ 53 \<longrightarrow>
           (\<exists>ds. s = CHR ''$'' # ds \<and> decimal_numeral ds n)))"

subsection \<open>Renumbering the internal ids\<close>

text \<open>
  To state that no output depends on the internal ids: the same tables with every internal id
  \<open>i\<close> replaced by \<open>f i\<close>, in the catalog and in the ratings.
\<close>

definition renumber_movie :: "(int \<Rightarrow> int) \<Rightarrow> MovieRow \<Rightarrow> MovieRow" where
  "renumber_movie f r = r\<lparr>MovieRow.movieId := f (MovieRow.movieId r)\<rparr>"


subsection \<open>Example data\<close>

text \<open>
  A finite part of \<^verbatim>\<open>JSON.parse\<close>: three texts with the value it gives for each, and no
  value for any other text. It takes the place of \<open>parse\<close> in the examples, which apply it
  to these three texts and to the text \<^verbatim>\<open>not json\<close>, which \<^verbatim>\<open>JSON.parse\<close> rejects as well.
\<close>

definition sample_parse :: json_parser where
  "sample_parse = map_of
     [(''null'', JNull),
      (''[]'', JArr []),
      (''[{\"id\":28,\"name\":\"Action\"}]'',
       JArr [JObj [(''id'', JNum 28), (''name'', JStr ''Action'')]])]"

text \<open>
  Three catalog rows: \<open>row0\<close> with budget 0 and no genre text, \<open>row1\<close> with a budget and one
  genre, \<open>row2\<close> of another year, with no budget and the empty genre array.
\<close>

definition row0 :: MovieRow where
  "row0 =
     \<lparr>MovieRow.movieId = 1,
      MovieRow.imdbId = ''tt1234567'',
      MovieRow.title = ''Test Movie'',
      overview = Some ''A test movie.'',
      MovieRow.productionCompanies = None,
      MovieRow.releaseDate = Some ''2005-03-01'',
      MovieRow.budget = Some 0,
      revenue = None,
      MovieRow.runtime = Some 120,
      language = ''en'',
      MovieRow.genres = None,
      status = None\<rparr>"

definition row1 :: MovieRow where
  "row1 = row0
     \<lparr>MovieRow.movieId := 2,
      MovieRow.imdbId := ''tt7654321'',
      MovieRow.releaseDate := Some ''2005-01-15'',
      MovieRow.budget := Some 1000000,
      MovieRow.genres := Some ''[{\"id\":28,\"name\":\"Action\"}]''\<rparr>"

definition row2 :: MovieRow where
  "row2 = row0
     \<lparr>MovieRow.movieId := 3,
      MovieRow.imdbId := ''tt0000002'',
      MovieRow.releaseDate := Some ''1999-12-31'',
      MovieRow.budget := None,
      MovieRow.genres := Some ''[]''\<rparr>"

text \<open>Rating samples for the example rows: 4, 4 and 5 for the movie of \<open>row1\<close>.\<close>

definition sample_ratings :: "Rating list" where
  "sample_ratings =
     [\<lparr>Rating.movieId = 2, rating = 4\<rparr>,
      \<lparr>Rating.movieId = 1, rating = 3\<rparr>,
      \<lparr>Rating.movieId = 2, rating = 4\<rparr>,
      \<lparr>Rating.movieId = 2, rating = 5\<rparr>]"

text \<open>Two rating samples for the movie of \<open>row0\<close>, both zero.\<close>

definition zero_ratings :: "Rating list" where
  "zero_ratings = [\<lparr>Rating.movieId = 1, rating = 0\<rparr>, \<lparr>Rating.movieId = 1, rating = 0\<rparr>]"

text \<open>
  Stores whose catalog lookup, respectively rating lookup, fails, as the stubs of the unit
  tests do.
\<close>

definition failing_movies :: ports where
  "failing_movies = (sqlite [row0] [])\<lparr>moviesDb_get := (\<lambda>i. Inl (StoreError ''DB error''))\<rparr>"

definition failing_ratings :: ports where
  "failing_ratings =
     (sqlite [row0] [])\<lparr>ratingsDb_get := (\<lambda>m. Inl (StoreError ''Rating DB error''))\<rparr>"

text \<open>
  A row whose genre text is not JSON, a row with a budget just above \<open>2^53\<close>, and a table of
  52 rows, which has a second page.
\<close>

definition malformed_row :: MovieRow where
  "malformed_row = row1\<lparr>MovieRow.imdbId := ''tt0000003'', MovieRow.genres := Some ''not json''\<rparr>"

definition costly_row :: MovieRow where
  "costly_row = row0\<lparr>MovieRow.budget := Some 9007199254740993\<rparr>"

definition two_pages :: "MovieRow list" where
  "two_pages = replicate 50 row0 @ [row1, row2]"

section \<open>Properties\<close>

subsection \<open>Numbers\<close>

lemma round53_nat_exact: "m \<le> 2 ^ 53 \<Longrightarrow> round53_nat m = m"
proof (cases "m < 2 ^ 53")
  case True
  then have "shift53 m = 0"
    by (simp add: shift53.simps)
  then show ?thesis
    by (simp add: round53_nat_def)
next
  case False
  assume "m \<le> 2 ^ 53"
  with False have m: "m = 2 ^ 53" by simp
  have "shift53 (2 ^ 53) = 1"
    by (simp add: shift53.simps)
  then show ?thesis
    unfolding m by (simp add: round53_nat_def)
qed

lemma round53_exact: "\<bar>n\<bar> \<le> 2 ^ 53 \<Longrightarrow> round53 n = n"
proof -
  assume n: "\<bar>n\<bar> \<le> 2 ^ 53"
  then have "nat \<bar>n\<bar> \<le> 2 ^ 53"
    by (simp add: nat_le_iff)
  then have "round53_nat (nat \<bar>n\<bar>) = nat \<bar>n\<bar>"
    by (rule round53_nat_exact)
  then show ?thesis
    by (cases "n < 0") (simp_all add: round53_def abs_if split: if_splits)
qed

lemma to_double_exact: "\<bar>n\<bar> \<le> 2 ^ 53 \<Longrightarrow> to_double n = Finite n"
proof -
  assume n: "\<bar>n\<bar> \<le> 2 ^ 53"
  have "(2::int) ^ 53 < 2 ^ 1024"
    by (rule power_strict_increasing) simp_all
  with n have "n < 2 ^ 1024" "- (2 ^ 1024) < n"
    by linarith+
  then show ?thesis
    by (simp add: to_double_def round53_exact [OF n] Let_def)
qed

lemma page_offset_exact:
  assumes "1 \<le> p" and "(p - 1) * 50 \<le> 2 ^ 53"
  shows "js_times (js_minus (Finite p) 1) 50 = Finite ((p - 1) * 50)"
proof -
  from assms have "\<bar>p - 1\<bar> \<le> 2 ^ 53" "\<bar>(p - 1) * 50\<bar> \<le> 2 ^ 53"
    by (simp_all add: abs_mult)
  then show ?thesis
    by (simp add: js_minus_def js_times_def to_double_exact)
qed

lemma must_be_int_Finite:
  "- (2 ^ 63) < a \<Longrightarrow> a < 2 ^ 63 \<Longrightarrow> must_be_int (Finite a) = Some a"
  by (simp add: must_be_int_def)

lemma limit_offset_page:
  assumes "0 \<le> k" and "k \<le> 2 ^ 53"
  shows "limit_offset (Finite 50) (Finite k) xs = Inr (take 50 (drop (nat k) xs))"
proof -
  have "(2::int) ^ 53 < 2 ^ 63"
    by (rule power_strict_increasing) simp_all
  with assms have "- (2 ^ 63) < k" "k < 2 ^ 63"
    by simp_all
  then show ?thesis
    by (simp add: limit_offset_def must_be_int_Finite)
qed

subsection \<open>Plain ASCII text\<close>

text \<open>
  On text without NUL bytes and without bytes beyond ASCII, characters are bytes: the C
  string is the whole text, \<^verbatim>\<open>substr\<close> takes bytes, and the code points are the byte values.
\<close>

lemma c_string_plain: "CHR 0x00 \<notin> set s \<Longrightarrow> c_string s = s"
  by (auto simp: c_string_def takeWhile_eq_all_conv)

lemma utf8_chars_ascii:
  "\<forall>c \<in> set s. (of_char c :: nat) < 128 \<Longrightarrow> utf8_chars s = map (\<lambda>c. [c]) s"
  by (induction s) auto

lemma substr_ascii:
  assumes "\<forall>c \<in> set s. 0 < (of_char c :: nat) \<and> (of_char c :: nat) < 128"
  shows "substr s n = take n s"
proof -
  have "CHR 0x00 \<notin> set s"
    using assms by force
  moreover have "concat (take n (map (\<lambda>c. [c]) s)) = take n s"
    by (induction s arbitrary: n) (simp_all add: take_Cons split: nat.splits)
  ultimately show ?thesis
    using assms by (simp add: substr_def c_string_plain utf8_chars_ascii)
qed

lemma utf8_codes_ascii:
  assumes "\<forall>c \<in> set s. 0 < (of_char c :: nat) \<and> (of_char c :: nat) < 128"
  shows "utf8_codes s = map of_char s"
proof -
  have "CHR 0x00 \<notin> set s"
    using assms by force
  moreover have "code_point [c] = of_char c" if "(of_char c :: nat) < 128" for c
    using that by (simp add: code_point_def)
  ultimately show ?thesis
    using assms by (simp add: utf8_codes_def c_string_plain utf8_chars_ascii)
qed

subsection \<open>Digits\<close>

lemma digit_cases: "d < 10 \<Longrightarrow> d \<in> {0, 1, 2, 3, 4, 5, 6, 7, 8, 9::nat}"
  by auto

lemma digit_char_props:
  assumes "d < 10"
  shows "digit_value (digit_char d) = d" "digit_char d \<in> set ''0123456789''"
    "digit_char d = CHR ''0'' \<longleftrightarrow> d = 0"
  using digit_cases [OF assms] by (auto simp: digit_char_def digit_value_def)

lemma decimal_value_snoc: "decimal_value (ds @ [c]) = 10 * decimal_value ds + digit_value c"
  by (simp add: decimal_value_def)

lemma digits_of_not_Nil: "digits_of n \<noteq> []"
  by (subst digits_of.simps) simp

lemma digits_of_digits: "set (digits_of n) \<subseteq> set ''0123456789''"
proof (induction n rule: digits_of.induct)
  case (1 n)
  show ?case
  proof (cases "n < 10")
    case True
    then show ?thesis
      using digit_char_props(2) [of n] by (subst digits_of.simps) simp
  next
    case False
    have "n mod 10 < 10" by simp
    with False "1.IH" show ?thesis
      using digit_char_props(2) [of "n mod 10"] by (subst digits_of.simps) simp
  qed
qed

lemma decimal_value_digits_of: "decimal_value (digits_of n) = n"
proof (induction n rule: digits_of.induct)
  case (1 n)
  show ?case
  proof (cases "n < 10")
    case True
    then show ?thesis
      by (subst digits_of.simps) (simp add: decimal_value_def digit_char_props(1))
  next
    case False
    with "1.IH" show ?thesis
      by (subst digits_of.simps) (simp add: decimal_value_snoc digit_char_props(1))
  qed
qed

lemma hd_digits_of: "hd (digits_of n) = CHR ''0'' \<longleftrightarrow> n = 0"
proof (induction n rule: digits_of.induct)
  case (1 n)
  show ?case
  proof (cases "n < 10")
    case True
    then show ?thesis
      by (subst digits_of.simps) (simp add: digit_char_props(3))
  next
    case False
    then have "n div 10 \<noteq> 0" by simp
    with False "1.IH" show ?thesis
      by (subst digits_of.simps) (simp add: digits_of_not_Nil)
  qed
qed

lemma digits_zero: "digits_of 0 = ''0''"
  by (simp add: digits_of.simps digit_char_def)

lemma length_digits_of: "0 < k \<Longrightarrow> n < 10 ^ k \<Longrightarrow> length (digits_of n) \<le> k"
proof (induction n arbitrary: k rule: digits_of.induct)
  case (1 n)
  show ?case
  proof (cases "n < 10")
    case True
    with "1.prems" show ?thesis
      by (subst digits_of.simps) simp
  next
    case False
    from "1.prems" obtain j where k: "k = Suc j"
      by (cases k) auto
    from False "1.prems" k have j: "0 < j"
      by (cases j) auto
    from "1.prems" k have "n div 10 < 10 ^ j"
      by (simp add: less_mult_imp_div_less mult.commute)
    with "1.IH" False j have "length (digits_of (n div 10)) \<le> j"
      by simp
    with False k show ?thesis
      by (subst digits_of.simps) simp
  qed
qed

text \<open>Up to \<open>2^53\<close> a number is written with its own digits.\<close>

lemma Number_toString_exact:
  assumes "0 \<le> n" and "n \<le> 2 ^ 53"
  shows "Number_toString n = digits_of (nat n)"
proof -
  have le: "nat n \<le> 2 ^ 53"
    using assms by (simp add: nat_le_iff)
  also have "(2::nat) ^ 53 < 10 ^ 16"
    by simp
  finally have "length (digits_of (nat n)) \<le> 16"
    by (intro length_digits_of) simp_all
  with le assms(1) show ?thesis
    by (simp add: Number_toString_def Number_toString_nat_def shortest_decimal_def)
qed

subsection \<open>From rows to items\<close>

lemma map_rows_Inr:
  "map_rows f xs = Inr ys \<Longrightarrow> list_all2 (\<lambda>x y. f x = Inr y) xs ys"
  by (induction xs arbitrary: ys) (auto split: sum.splits)

lemma map_rows_length: "map_rows f xs = Inr ys \<Longrightarrow> length ys = length xs"
  by (drule map_rows_Inr) (simp add: list_all2_lengthD)

lemma map_rows_Inl:
  "map_rows f xs = Inl e \<longleftrightarrow> (\<exists>x \<in> set xs. f x = Inl e)"
  by (induction xs) (auto split: sum.splits js_error.splits, (metis js_error.exhaust)+)

lemma map_rows_total:
  "(\<And>x. x \<in> set xs \<Longrightarrow> \<exists>y. f x = Inr y) \<Longrightarrow> \<exists>ys. map_rows f xs = Inr ys"
  by (induction xs) (fastforce split: sum.splits)+

lemma map_rows_map:
  "map_rows f (map g xs) = Inr ys \<Longrightarrow> list_all2 (\<lambda>x y. f (g x) = Inr y) xs ys"
  by (drule map_rows_Inr) (simp add: list_all2_map1)

lemma settle_Resolved: "settle r = Resolved v \<longleftrightarrow> r = Inr v"
  by (cases r) (simp_all add: settle_def)

lemma formatMovie_total: "parses parse (Movie.genres r) \<Longrightarrow> \<exists>i. formatMovie parse r = Inr i"
  by (auto simp: parses_def formatMovie_def JSON_parse_def split: option.splits)

lemma formatRow_total: "well_formed parse (Movie.genres r) \<Longrightarrow> \<exists>i. formatRow parse r = Inr i"
  by (auto simp: well_formed_def formatRow_def parse_or_empty_def JSON_parse_def
      split: option.splits)

lemma formatRow_throws:
  "\<not> well_formed parse (Movie.genres r) \<Longrightarrow> formatRow parse r = Inl SyntaxError"
  by (auto simp: well_formed_def formatRow_def parse_or_empty_def JSON_parse_def
      split: option.splits)

lemma formatMovie_presents: "formatMovie parse (select_columns r) = Inr i \<Longrightarrow> presents r i"
  by (auto simp: formatMovie_def select_columns_def presents_def split: sum.splits)

lemma formatRow_presents: "formatRow parse (select_columns r) = Inr i \<Longrightarrow> presents r i"
  by (auto simp: formatRow_def select_columns_def presents_def split: sum.splits)

lemma select_columns_genres [simp]: "Movie.genres (select_columns r) = MovieRow.genres r"
  by (simp add: select_columns_def)

text \<open>
  The items built from the records of a page, by \<^verbatim>\<open>getPaginatedMovies\<close> and by the two
  filtering functions.
\<close>

lemma page_items:
  assumes "\<forall>r \<in> set page. parses parse (MovieRow.genres r)"
  shows "\<exists>items. settle (map_rows (formatMovie parse) (map select_columns page)) = Resolved items \<and>
                 list_all2 presents page items"
proof -
  have "\<exists>items. map_rows (formatMovie parse) (map select_columns page) = Inr items"
  proof (rule map_rows_total)
    fix x
    assume "x \<in> set (map select_columns page)"
    with assms show "\<exists>i. formatMovie parse x = Inr i"
      by (auto intro: formatMovie_total)
  qed
  then obtain items where
    items: "map_rows (formatMovie parse) (map select_columns page) = Inr items" ..
  from map_rows_map [OF items] have "list_all2 presents page items"
    by (rule list_all2_mono) (rule formatMovie_presents)
  with items show ?thesis
    by (auto simp: settle_def)
qed

lemma filtered_page_items:
  "if \<forall>r \<in> set page. well_formed parse (MovieRow.genres r)
   then \<exists>items. settle (map_rows (formatRow parse) (map select_columns page)) = Resolved items \<and>
                 list_all2 presents page items
   else settle (map_rows (formatRow parse) (map select_columns page)) = Thrown SyntaxError"
proof (cases "\<forall>r \<in> set page. well_formed parse (MovieRow.genres r)")
  case True
  have "\<exists>items. map_rows (formatRow parse) (map select_columns page) = Inr items"
  proof (rule map_rows_total)
    fix x
    assume "x \<in> set (map select_columns page)"
    with True show "\<exists>i. formatRow parse x = Inr i"
      by (auto intro: formatRow_total)
  qed
  then obtain items where
    items: "map_rows (formatRow parse) (map select_columns page) = Inr items" ..
  from map_rows_map [OF items] have "list_all2 presents page items"
    by (rule list_all2_mono) (rule formatRow_presents)
  with items True show ?thesis
    by (auto simp: settle_def)
next
  case False
  then obtain r where "r \<in> set page" "formatRow parse (select_columns r) = Inl SyntaxError"
    using formatRow_throws [of parse "select_columns r" for r] by auto
  then have "map_rows (formatRow parse) (map select_columns page) = Inl SyntaxError"
    by (auto simp: map_rows_Inl)
  with False show ?thesis
    by (simp add: settle_def)
qed

subsection \<open>Evaluating the examples\<close>

lemma first_pages:
  "js_times (js_minus (Finite 1) 1) 50 = Finite 0"
  "js_times (js_minus (Finite 2) 1) 50 = Finite 50"
  using page_offset_exact [of 1] page_offset_exact [of 2] by simp_all

lemma big_page:
  "js_times (js_minus (Finite 100000000000000000) 1) 50 = Finite 5000000000000000000"
  "js_times (js_minus (Finite 200000000000000000) 1) 50 = Finite 10000000000000000000"
  by (simp_all add: js_times_def js_minus_def to_double_def round53_def round53_nat_def
      shift53.simps Let_def)

lemma limit_offset_examples:
  "limit_offset (Finite 50) (Finite 0) xs = Inr (take 50 xs)"
  "limit_offset (Finite 50) (Finite 50) xs = Inr (take 50 (drop 50 xs))"
  using limit_offset_page [of 0 xs] limit_offset_page [of 50 xs] by simp_all

lemma second_page: "take 50 (drop 50 two_pages) = [row1, row2]"
  by (simp add: two_pages_def)

lemma digits_million: "digits_of 1000000 = ''1000000''"
  by (simp add: digits_of.simps digit_char_def)

lemma formatBudget_examples:
  "formatBudget None = ''N/A''"
  "formatBudget (Some 0) = ''$0''"
  "formatBudget (Some 1000000) = ''$1000000''"
  by (simp_all add: formatBudget_def Number_toString_exact digits_zero digits_million)

lemma delivered_rows:
  "detail_columns row0 = row0" "detail_columns row1 = row1" "detail_columns row2 = row2"
  "Movie.budget (select_columns row0) = Some 0"
  "Movie.budget (select_columns row1) = Some 1000000"
  "Movie.budget (select_columns row2) = None"
  by (simp_all add: detail_columns_def select_columns_def row0_def row1_def row2_def
      round53_exact)

lemmas example_simps =
  sqlite_def sqlite_movies_all_def sqlite_movies_get_def first_pages limit_offset_examples
  Let_def settle_def formatMovie_def formatRow_def JSON_parse_def parse_or_empty_def
  sample_parse_def formatBudget_examples delivered_rows

lemma parses_examples:
  "parses sample_parse (MovieRow.genres row0)"
  "parses sample_parse (MovieRow.genres row1)"
  "parses sample_parse (MovieRow.genres row2)"
  by (simp_all add: parses_def sample_parse_def row0_def row1_def row2_def)

lemma well_formed_examples:
  "well_formed sample_parse (MovieRow.genres row0)"
  "well_formed sample_parse (MovieRow.genres row1)"
  "well_formed sample_parse (MovieRow.genres row2)"
  "well_formed sample_parse (MovieRow.productionCompanies row1)"
  by (simp_all add: well_formed_def sample_parse_def row0_def row1_def row2_def)

lemma example_items:
  "formatRow sample_parse (select_columns row0) =
     Inr \<lparr>MovieItem.imdbId = ''tt1234567'', title = ''Test Movie'', genres = JArr [],
         releaseDate = Some ''2005-03-01'', budget = ''$0''\<rparr>"
  "formatRow sample_parse (select_columns row1) =
     Inr \<lparr>MovieItem.imdbId = ''tt7654321'', title = ''Test Movie'',
         genres = JArr [JObj [(''id'', JNum 28), (''name'', JStr ''Action'')]],
         releaseDate = Some ''2005-01-15'', budget = ''$1000000''\<rparr>"
  "formatRow sample_parse (select_columns row2) =
     Inr \<lparr>MovieItem.imdbId = ''tt0000002'', title = ''Test Movie'', genres = JArr [],
         releaseDate = Some ''1999-12-31'', budget = ''N/A''\<rparr>"
  "formatRow sample_parse (select_columns malformed_row) = Inl SyntaxError"
  by (simp_all add: formatRow_def parse_or_empty_def JSON_parse_def sample_parse_def
      formatBudget_examples select_columns_def row0_def row1_def row2_def malformed_row_def
      round53_exact)

lemma page_example:
  "fst (getPaginatedMovies sample_parse (sqlite [row1, row2, row0] []) 1) =
     Resolved
       [\<lparr>MovieItem.imdbId = ''tt7654321'', title = ''Test Movie'',
         genres = JArr [JObj [(''id'', JNum 28), (''name'', JStr ''Action'')]],
         releaseDate = Some ''2005-01-15'', budget = ''$1000000''\<rparr>,
        \<lparr>MovieItem.imdbId = ''tt0000002'', title = ''Test Movie'', genres = JArr [],
         releaseDate = Some ''1999-12-31'', budget = ''N/A''\<rparr>,
        \<lparr>MovieItem.imdbId = ''tt1234567'', title = ''Test Movie'', genres = JNull,
         releaseDate = Some ''2005-03-01'', budget = ''$0''\<rparr>]"
  by (simp add: getPaginatedMovies_def example_simps select_columns_def row0_def row1_def
      row2_def round53_exact)

lemma year_matches_examples:
  "year_matches ''2005'' row0" "year_matches ''2005'' row1" "\<not> year_matches ''2005'' row2"
  "year_matches ''2005'' malformed_row"
  by (simp_all add: year_matches_def row0_def row1_def row2_def malformed_row_def substr_ascii)

lemma year_query_examples:
  "sqlite_movies_all [row1, row2, row0] (SelectByYear Desc ''2005'' (Finite 50) (Finite 0)) =
     Inr [select_columns row0, select_columns row1]"
  "sqlite_movies_all [malformed_row] (SelectByYear Asc ''2005'' (Finite 50) (Finite 0)) =
     Inr [select_columns malformed_row]"
proof -
  have "\<not> by_releaseDate Desc row1 row0"
    by (simp add: by_releaseDate_def date_le_def row0_def row1_def)
  then show
    "sqlite_movies_all [row1, row2, row0] (SelectByYear Desc ''2005'' (Finite 50) (Finite 0)) =
       Inr [select_columns row0, select_columns row1]"
    by (simp add: sqlite_movies_all_def limit_offset_examples year_matches_examples)
  show "sqlite_movies_all [malformed_row] (SelectByYear Asc ''2005'' (Finite 50) (Finite 0)) =
      Inr [select_columns malformed_row]"
    by (simp add: sqlite_movies_all_def limit_offset_examples year_matches_examples)
qed

lemma year_example:
  "fst (getMoviesByYear sample_parse (sqlite [row1, row2, row0] []) ''2005'' 1 Desc) =
     Resolved
       [\<lparr>MovieItem.imdbId = ''tt1234567'', title = ''Test Movie'', genres = JArr [],
         releaseDate = Some ''2005-03-01'', budget = ''$0''\<rparr>,
        \<lparr>MovieItem.imdbId = ''tt7654321'', title = ''Test Movie'',
         genres = JArr [JObj [(''id'', JNum 28), (''name'', JStr ''Action'')]],
         releaseDate = Some ''2005-01-15'', budget = ''$1000000''\<rparr>]"
  by (simp add: getMoviesByYear_def sqlite_def first_pages year_query_examples example_items
      settle_def)

lemma genre_matches_examples:
  "\<not> genre_matches ''%action%'' row0"
  "genre_matches ''%action%'' row1"
  "\<not> genre_matches ''%action%'' row2"
  "\<not> genre_matches ''%A_tion%'' row0"
  "genre_matches ''%A_tion%'' row1"
  "\<not> genre_matches ''%A_tion%'' row2"
  "\<not> genre_matches [CHR ''%'', CHR '']'', CHR 0x00, CHR ''z'', CHR ''%''] row0"
  "genre_matches [CHR ''%'', CHR '']'', CHR 0x00, CHR ''z'', CHR ''%''] row1"
  "genre_matches [CHR ''%'', CHR '']'', CHR 0x00, CHR ''z'', CHR ''%''] row2"
  "genre_matches ''%json%'' malformed_row"
  by (simp_all add: genre_matches_def sql_like_def utf8_codes_def c_string_def code_point_def
      fold_case_def row0_def row1_def row2_def malformed_row_def)

lemma genre_query_examples:
  "sqlite_movies_all [row1, row2, row0] (SelectByGenre ''%action%'' (Finite 50) (Finite 0)) =
     Inr [select_columns row1]"
  "sqlite_movies_all [row1, row2, row0] (SelectByGenre ''%A_tion%'' (Finite 50) (Finite 0)) =
     Inr [select_columns row1]"
  "sqlite_movies_all [row1, row2, row0]
     (SelectByGenre [CHR ''%'', CHR '']'', CHR 0x00, CHR ''z'', CHR ''%''] (Finite 50) (Finite 0)) =
     Inr [select_columns row1, select_columns row2]"
  "sqlite_movies_all [malformed_row] (SelectByGenre ''%json%'' (Finite 50) (Finite 0)) =
     Inr [select_columns malformed_row]"
  by (simp_all add: sqlite_movies_all_def limit_offset_examples genre_matches_examples)

lemma genre_example:
  "fst (getMoviesByGenre sample_parse (sqlite [row1, row2, row0] []) ''action'' 1) =
     Resolved
       [\<lparr>MovieItem.imdbId = ''tt7654321'', title = ''Test Movie'',
         genres = JArr [JObj [(''id'', JNum 28), (''name'', JStr ''Action'')]],
         releaseDate = Some ''2005-01-15'', budget = ''$1000000''\<rparr>]"
  by (simp add: getMoviesByGenre_def sqlite_def first_pages genre_query_examples example_items
      settle_def)

subsection \<open>The detail lookup: not found, and store failures\<close>

text \<open>
  C4. When the catalog lookup yields no row for the public id, \<^verbatim>\<open>getMovieDetailsByImdbId\<close>
  resolves with \<^verbatim>\<open>null\<close> (it neither rejects nor throws), and the only store call it issued
  is the catalog lookup: no call to the rating store. This holds for any store client whose
  lookup yields no row, and in particular for the SQLite store whenever no row of the
  \<^verbatim>\<open>movies\<close> table carries that public id.
\<close>

theorem getDetail_unknown_id:
  "(moviesDb_get db pid = Inr None \<longrightarrow>
      getMovieDetailsByImdbId parse db pid = (Resolved None, [MoviesGet pid])) \<and>
   (pid \<notin> MovieRow.imdbId ` set movies \<longrightarrow>
      getMovieDetailsByImdbId parse (sqlite movies ratings) pid = (Resolved None, [MoviesGet pid]))"
proof -
  have "sqlite_movies_get movies pid = None" if "pid \<notin> MovieRow.imdbId ` set movies"
    using that by (auto simp: sqlite_movies_get_def find_None_iff)
  then show ?thesis
    by (simp add: getMovieDetailsByImdbId_def sqlite_def)
qed

theorem getDetail_unknown_id_witness:
  "''tt0000000'' \<notin> MovieRow.imdbId ` set [row0] \<and>
   moviesDb_get (sqlite [row0] []) ''tt0000000'' = Inr None \<and>
   getMovieDetailsByImdbId sample_parse (sqlite [row0] []) ''tt0000000'' =
     (Resolved None, [MoviesGet ''tt0000000''])"
  using getDetail_unknown_id [of "sqlite [row0] []" "''tt0000000''" sample_parse "[row0]" "[]"]
  by (simp add: row0_def sqlite_def sqlite_movies_get_def)

text \<open>
  C5. If the catalog lookup fails, \<^verbatim>\<open>getMovieDetailsByImdbId\<close> rejects with that very error.
  If the catalog lookup finds a row and the rating lookup for its internal id fails, it
  rejects with the rating store's error: the outcome is never a resolved \<open>MovieDetails\<close>.
\<close>

theorem getDetail_store_errors:
  "(moviesDb_get db pid = Inl e \<longrightarrow>
      getMovieDetailsByImdbId parse db pid = (Rejected e, [MoviesGet pid])) \<and>
   (moviesDb_get db pid = Inr (Some row) \<and> ratingsDb_get db (MovieRow.movieId row) = Inl e \<longrightarrow>
      fst (getMovieDetailsByImdbId parse db pid) = Rejected e)"
  by (simp add: getMovieDetailsByImdbId_def Let_def)

theorem getDetail_store_errors_witness:
  "moviesDb_get failing_movies ''tt1234567'' = Inl (StoreError ''DB error'') \<and>
   fst (getMovieDetailsByImdbId sample_parse failing_movies ''tt1234567'') =
     Rejected (StoreError ''DB error'') \<and>
   moviesDb_get failing_ratings ''tt1234567'' = Inr (Some row0) \<and>
   ratingsDb_get failing_ratings (MovieRow.movieId row0) = Inl (StoreError ''Rating DB error'') \<and>
   fst (getMovieDetailsByImdbId sample_parse failing_ratings ''tt1234567'') =
     Rejected (StoreError ''Rating DB error'')"
proof -
  have m: "moviesDb_get failing_movies ''tt1234567'' = Inl (StoreError ''DB error'')"
    by (simp add: failing_movies_def)
  have g: "moviesDb_get failing_ratings ''tt1234567'' = Inr (Some row0)"
    by (simp add: failing_ratings_def sqlite_def sqlite_movies_get_def detail_columns_def round53_exact row0_def)
  have r: "ratingsDb_get failing_ratings (MovieRow.movieId row0) =
      Inl (StoreError ''Rating DB error'')"
    by (simp add: failing_ratings_def)
  from m g r
    getDetail_store_errors
      [of failing_movies "''tt1234567''" "StoreError ''DB error''" sample_parse]
    getDetail_store_errors
      [of failing_ratings "''tt1234567''" "StoreError ''Rating DB error''" sample_parse row0]
  show ?thesis by simp
qed

subsection \<open>The average rating\<close>

text \<open>
  The number \<^verbatim>\<open>parseFloat(x.toFixed(1))\<close> is a multiple of one tenth at distance at most one
  twentieth from \<open>x\<close>: \<open>x\<close> rounded to one decimal place.
\<close>

lemma parseFloat_toFixed1_nearest:
  "\<bar>parseFloat_toFixed1 x - x\<bar> \<le> 1 / 20 \<and> (\<exists>k::int. parseFloat_toFixed1 x = of_int k / 10)"
proof (cases "x < 0")
  case True
  define n where "n = \<lfloor>(- x) * 10 + 1 / 2\<rfloor>"
  have "of_int n \<le> (- x) * 10 + 1 / 2" "(- x) * 10 + 1 / 2 < of_int n + 1"
    unfolding n_def by linarith+
  then have "\<bar>- (of_int n / 10) - x\<bar> \<le> 1 / 20"
    by linarith
  moreover have "- (of_int n / 10) = (of_int (- n) :: rat) / 10"
    by simp
  moreover have "parseFloat_toFixed1 x = - (of_int n / 10)"
    using True by (simp add: parseFloat_toFixed1_def n_def)
  ultimately show ?thesis
    by metis
next
  case False
  define n where "n = \<lfloor>x * 10 + 1 / 2\<rfloor>"
  have "of_int n \<le> x * 10 + 1 / 2" "x * 10 + 1 / 2 < of_int n + 1"
    unfolding n_def by linarith+
  then have "\<bar>of_int n / 10 - x\<bar> \<le> 1 / 20"
    by linarith
  moreover have "parseFloat_toFixed1 x = of_int n / 10"
    using False by (simp add: parseFloat_toFixed1_def n_def)
  ultimately show ?thesis
    by metis
qed

lemma getDetail_sqlite_found:
  assumes "sqlite_movies_get movies pid = Some row"
    and "parse_or_empty parse (MovieRow.genres row) = Inr g"
    and "parse_or_empty parse (MovieRow.productionCompanies row) = Inr pc"
  shows "fst (getMovieDetailsByImdbId parse (sqlite movies ratings) pid) =
    Resolved (Some
      \<lparr>MovieDetails.imdbId = MovieRow.imdbId row,
       MovieDetails.title = MovieRow.title row,
       description = overview row,
       MovieDetails.releaseDate = MovieRow.releaseDate row,
       MovieDetails.budget = formatBudget (MovieRow.budget row),
       MovieDetails.runtime = MovieRow.runtime row,
       averageRating = formatRating (Some (AVG (samples ratings (MovieRow.movieId row)))),
       MovieDetails.genres = g,
       originalLanguage = language row,
       MovieDetails.productionCompanies = pc\<rparr>)"
  using assms by (simp add: getMovieDetailsByImdbId_def sqlite_def Let_def)

lemma averageRating_of_samples:
  "formatRating (Some (AVG xs)) =
     (if xs = [] then None
      else if sum_list xs = 0 then None
      else Some (parseFloat_toFixed1 (sum_list xs / of_nat (length xs))))"
  by (simp add: formatRating_def AVG_def)

lemma averageRating_examples:
  "formatRating (Some (AVG [])) = None"
  "formatRating (Some (AVG [4, 5])) = Some (45 / 10)"
  "formatRating (Some (AVG [4, 4, 5])) = Some (43 / 10)"
  by code_simp+

text \<open>
  C10. Whenever the movie found has at least one rating sample and the mean of its samples is
  exactly 0, \<^verbatim>\<open>getMovieDetailsByImdbId\<close> resolves with \<^verbatim>\<open>averageRating\<close> \<^verbatim>\<open>null\<close>: the
  conditional tests the aggregate for truthiness, and the number 0 is falsy. The instance
  that follows is such a movie, with the two samples 0 and 0.
\<close>

theorem zero_mean_yields_null:
  assumes "sqlite_movies_get movies pid = Some row"
    and "samples ratings (MovieRow.movieId row) \<noteq> []"
    and "AVG (samples ratings (MovieRow.movieId row)) = Some 0"
    and "parse_or_empty parse (MovieRow.genres row) = Inr g"
    and "parse_or_empty parse (MovieRow.productionCompanies row) = Inr pc"
  shows "\<exists>d. fst (getMovieDetailsByImdbId parse (sqlite movies ratings) pid) = Resolved (Some d) \<and>
             averageRating d = None"
  using getDetail_sqlite_found [OF assms(1,4,5), of ratings] assms(3)
  by (simp add: formatRating_def)

theorem zero_mean_yields_null_witness:
  "sqlite_movies_get [row0] ''tt1234567'' = Some row0 \<and>
   samples zero_ratings (MovieRow.movieId row0) = [0, 0] \<and>
   AVG (samples zero_ratings (MovieRow.movieId row0)) = Some 0 \<and>
   parse_or_empty sample_parse (MovieRow.genres row0) = Inr (JArr []) \<and>
   parse_or_empty sample_parse (MovieRow.productionCompanies row0) = Inr (JArr []) \<and>
   (\<exists>d. fst (getMovieDetailsByImdbId sample_parse (sqlite [row0] zero_ratings) ''tt1234567'') =
          Resolved (Some d) \<and> averageRating d = None)"
proof -
  have a: "sqlite_movies_get [row0] ''tt1234567'' = Some row0"
    by (simp add: sqlite_movies_get_def detail_columns_def round53_exact row0_def)
  have b: "samples zero_ratings (MovieRow.movieId row0) = [0, 0]"
    by (simp add: samples_def zero_ratings_def row0_def)
  have c: "AVG (samples zero_ratings (MovieRow.movieId row0)) = Some 0"
    by (simp add: b AVG_def)
  have d: "parse_or_empty sample_parse (MovieRow.genres row0) = Inr (JArr [])"
    by (simp add: parse_or_empty_def row0_def)
  have e: "parse_or_empty sample_parse (MovieRow.productionCompanies row0) = Inr (JArr [])"
    by (simp add: parse_or_empty_def row0_def)
  from zero_mean_yields_null [OF a _ c d e] a b c d e show ?thesis
    by simp
qed

text \<open>
  C1, evaluated where it fails. The movie of \<open>row0\<close> has the single rating sample 0, so its
  mean rounded to one decimal place is 0; the function resolves with \<^verbatim>\<open>averageRating\<close> \<^verbatim>\<open>null\<close>,
  the value meant for a movie without samples. (For a non-zero mean and for no samples the
  function does what C1 says: \<open>averageRating_of_samples\<close>, \<open>averageRating_examples\<close>.)
\<close>

theorem getDetail_single_zero_sample:
  "samples [\<lparr>Rating.movieId = 1, rating = 0\<rparr>] (MovieRow.movieId row0) = [0] \<and>
   (\<exists>d. fst (getMovieDetailsByImdbId sample_parse
              (sqlite [row0] [\<lparr>Rating.movieId = 1, rating = 0\<rparr>]) ''tt1234567'') =
          Resolved (Some d) \<and> averageRating d = None)"
  by (simp add: getMovieDetailsByImdbId_def sqlite_def sqlite_movies_get_def samples_def AVG_def
      formatRating_def parse_or_empty_def detail_columns_def round53_exact row0_def Let_def)

subsection \<open>Genre text\<close>

text \<open>
  The guarded expression of \<^verbatim>\<open>getMovieDetailsByImdbId\<close>, \<^verbatim>\<open>getMoviesByYear\<close> and
  \<^verbatim>\<open>getMoviesByGenre\<close>: NULL and the empty text give the empty array, any other text gives
  what \<^verbatim>\<open>JSON.parse\<close> makes of it, value or \<^verbatim>\<open>SyntaxError\<close>; and one row that throws makes
  the whole list throw.
\<close>

lemma parse_or_empty_cases:
  "parse_or_empty parse None = Inr (JArr [])"
  "parse_or_empty parse (Some []) = Inr (JArr [])"
  "t \<noteq> [] \<Longrightarrow> parse t = Some v \<Longrightarrow> parse_or_empty parse (Some t) = Inr v"
  "t \<noteq> [] \<Longrightarrow> parse t = None \<Longrightarrow> parse_or_empty parse (Some t) = Inl SyntaxError"
  by (simp_all add: parse_or_empty_def JSON_parse_def)

text \<open>
  C2, evaluated where it fails. The genre column of \<open>row0\<close> is NULL. \<^verbatim>\<open>getPaginatedMovies\<close>
  hands it to \<^verbatim>\<open>JSON.parse\<close> unguarded, which reads \<^verbatim>\<open>null\<close> as the text \<^verbatim>\<open>"null"\<close>, and the
  item's \<^verbatim>\<open>genres\<close> is \<^verbatim>\<open>null\<close>, not the empty array; \<^verbatim>\<open>getMoviesByYear\<close>, which guards the
  call, gives the empty array for the same row.
\<close>

theorem listPage_null_genres:
  "Movie.genres (select_columns row0) = None \<and>
   (\<exists>item. fst (getPaginatedMovies sample_parse (sqlite [row0] []) 1) = Resolved [item] \<and>
           MovieItem.genres item = JNull) \<and>
   (\<exists>item. fst (getMoviesByYear sample_parse (sqlite [row0] []) ''2005'' 1 Asc) = Resolved [item] \<and>
           MovieItem.genres item = JArr [])"
  by (simp add: getPaginatedMovies_def getMoviesByYear_def sqlite_def sqlite_movies_all_def
      first_pages limit_offset_examples Let_def settle_def select_columns_def row0_def
      formatMovie_def formatRow_def JSON_parse_def parse_or_empty_def sample_parse_def
      year_matches_def substr_ascii)

subsection \<open>Pagination of the plain listing\<close>

text \<open>
  C7, as amended. For every page \<open>p \<ge> 1\<close> with \<open>(p - 1) * 50 \<le> 2^53\<close> and every store,
  \<^verbatim>\<open>getPaginatedMovies\<close> issues exactly one call, the page statement with limit 50 and
  offset \<open>(p - 1) * 50\<close>; it rejects with the store's error if the statement fails and
  otherwise settles on the rows delivered. On the SQLite store the statement delivers the 50
  records after the first \<open>(p - 1) * 50\<close>, in table order; if the genre text of each of them
  parses, the function resolves with one item for each, in that order, carrying its public
  id, title and release date; and whenever it resolves, it does so with at most 50 items.
\<close>

theorem listPage_query_and_limit:
  assumes "1 \<le> p" and "(p - 1) * 50 \<le> 2 ^ 53"
  shows "snd (getPaginatedMovies parse db p) =
           [MoviesAll (SelectPage (Finite 50) (Finite ((p - 1) * 50)))] \<and>
         (\<forall>e. moviesDb_all db (SelectPage (Finite 50) (Finite ((p - 1) * 50))) = Inl e \<longrightarrow>
              fst (getPaginatedMovies parse db p) = Rejected e) \<and>
         (\<forall>rows. moviesDb_all db (SelectPage (Finite 50) (Finite ((p - 1) * 50))) = Inr rows \<longrightarrow>
              fst (getPaginatedMovies parse db p) = settle (map_rows (formatMovie parse) rows)) \<and>
         moviesDb_all (sqlite movies ratings) (SelectPage (Finite 50) (Finite ((p - 1) * 50))) =
           Inr (map select_columns (take 50 (drop (nat ((p - 1) * 50)) movies))) \<and>
         ((\<forall>r \<in> set (take 50 (drop (nat ((p - 1) * 50)) movies)). parses parse (MovieRow.genres r)) \<longrightarrow>
            (\<exists>items. fst (getPaginatedMovies parse (sqlite movies ratings) p) = Resolved items \<and>
                     list_all2 presents (take 50 (drop (nat ((p - 1) * 50)) movies)) items)) \<and>
         (\<forall>items. fst (getPaginatedMovies parse (sqlite movies ratings) p) = Resolved items \<longrightarrow>
              length items \<le> 50)"
proof -
  let ?q = "SelectPage (Finite 50) (Finite ((p - 1) * 50))"
  let ?page = "take 50 (drop (nat ((p - 1) * 50)) movies)"
  have run: "getPaginatedMovies parse db p =
      (case moviesDb_all db ?q of
         Inl err \<Rightarrow> Rejected err
       | Inr rows \<Rightarrow> settle (map_rows (formatMovie parse) rows),
       [MoviesAll ?q])" for db
    by (simp add: getPaginatedMovies_def page_offset_exact [OF assms] Let_def)
  have store: "moviesDb_all (sqlite movies ratings) ?q = Inr (map select_columns ?page)"
    using assms by (simp add: sqlite_def sqlite_movies_all_def limit_offset_page)
  have resolved: "fst (getPaginatedMovies parse (sqlite movies ratings) p) =
      settle (map_rows (formatMovie parse) (map select_columns ?page))"
    unfolding run store by simp
  have "length items \<le> 50"
    if "fst (getPaginatedMovies parse (sqlite movies ratings) p) = Resolved items" for items
  proof -
    from that have "map_rows (formatMovie parse) (map select_columns ?page) = Inr items"
      by (simp add: resolved settle_Resolved)
    then have "length items = length ?page"
      by (simp add: map_rows_length)
    then show ?thesis
      by simp
  qed
  moreover have "\<exists>items. fst (getPaginatedMovies parse (sqlite movies ratings) p) = Resolved items \<and>
      list_all2 presents ?page items"
    if "\<forall>r \<in> set ?page. parses parse (MovieRow.genres r)"
    using page_items [OF that] by (simp add: resolved)
  ultimately show ?thesis
    using store by (simp add: run)
qed

theorem listPage_query_and_limit_witness:
  "(1::int) \<le> 2 \<and> (2 - 1) * 50 \<le> (2::int) ^ 53 \<and>
   snd (getPaginatedMovies sample_parse (sqlite two_pages []) 2) =
     [MoviesAll (SelectPage (Finite 50) (Finite 50))] \<and>
   moviesDb_all (sqlite two_pages []) (SelectPage (Finite 50) (Finite 50)) =
     Inr (map select_columns [row1, row2]) \<and>
   parses sample_parse (MovieRow.genres row1) \<and> parses sample_parse (MovieRow.genres row2) \<and>
   (\<exists>items. fst (getPaginatedMovies sample_parse (sqlite two_pages []) 2) = Resolved items \<and>
            list_all2 presents [row1, row2] items \<and> length items \<le> 50)"
proof -
  have b: "(1::int) \<le> 2" "(2 - 1) * 50 \<le> (2::int) ^ 53"
    by simp_all
  note page2 = listPage_query_and_limit [OF b, of sample_parse "sqlite two_pages []" two_pages "[]"]
  have readable: "\<forall>r \<in> set (take 50 (drop (nat ((2 - 1) * 50)) two_pages)).
      parses sample_parse (MovieRow.genres r)"
    by (simp add: second_page parses_examples)
  from page2 readable obtain items where
    items: "fst (getPaginatedMovies sample_parse (sqlite two_pages []) 2) = Resolved items"
    and shown: "list_all2 presents (take 50 (drop (nat ((2 - 1) * 50)) two_pages)) items"
    by blast
  from page2 items have "length items \<le> 50"
    by blast
  moreover from shown have "list_all2 presents [row1, row2] items"
    by (simp add: second_page)
  moreover from page2 have "snd (getPaginatedMovies sample_parse (sqlite two_pages []) 2) =
      [MoviesAll (SelectPage (Finite 50) (Finite 50))]"
    and "moviesDb_all (sqlite two_pages []) (SelectPage (Finite 50) (Finite 50)) =
      Inr (map select_columns [row1, row2])"
    by (simp_all add: second_page)
  ultimately show ?thesis
    using b parses_examples items by blast
qed

text \<open>
  C7 as stated fails for large pages. For page \<open>10^17\<close> the offset requested is
  5000000000000000000, which is not \<open>(p - 1) * 50\<close>: the difference and the product are
  rounded to doubles. For page \<open>2 * 10^17\<close> the product is beyond \<open>2^63\<close>, and the store
  refuses the statement.
\<close>

theorem listPage_offset_counterexample:
  "getPaginatedMovies sample_parse (sqlite [row0] []) 100000000000000000 =
     (Resolved [], [MoviesAll (SelectPage (Finite 50) (Finite 5000000000000000000))]) \<and>
   (100000000000000000 - 1) * 50 = (4999999999999999950 :: int) \<and>
   fst (getPaginatedMovies sample_parse (sqlite [row0] []) 200000000000000000) =
     Rejected (StoreError ''SQLITE_MISMATCH: datatype mismatch'')"
  by (simp add: getPaginatedMovies_def big_page sqlite_def sqlite_movies_all_def limit_offset_def
      must_be_int_def datatype_mismatch_def settle_def)

subsection \<open>The budget display rule\<close>

lemma decimal_numeral_digits_of: "0 < n \<Longrightarrow> decimal_numeral (digits_of (nat n)) n"
  unfolding decimal_numeral_def
  using digits_of_digits [of "nat n"]
  by (intro conjI) (simp_all only: digits_of_not_Nil decimal_value_digits_of hd_digits_of, simp_all)

lemma formatBudget_spec: "budget_display_spec b (formatBudget b)"
  by (auto simp: budget_display_spec_def formatBudget_def Number_toString_exact digits_zero
      decimal_numeral_digits_of)

lemma formatMovie_budget:
  "formatMovie parse r = Inr i \<Longrightarrow> MovieItem.budget i = formatBudget (Movie.budget r)"
  by (auto simp: formatMovie_def split: sum.splits)

lemma formatRow_budget:
  "formatRow parse r = Inr i \<Longrightarrow> MovieItem.budget i = formatBudget (Movie.budget r)"
  by (auto simp: formatRow_def split: sum.splits)

lemma budgets_of_rows:
  assumes "\<And>r. r \<in> set rows \<Longrightarrow> \<exists>i. f r = Inr i"
    and "\<And>r i. f r = Inr i \<Longrightarrow> MovieItem.budget i = formatBudget (Movie.budget r)"
  shows "\<exists>items. settle (map_rows f rows) = Resolved items \<and>
     list_all2 (\<lambda>r i. budget_display_spec (Movie.budget r) (MovieItem.budget i)) rows items"
proof -
  from map_rows_total [of rows f] assms(1) obtain items where
    items: "map_rows f rows = Inr items"
    by blast
  from map_rows_Inr [OF items]
  have "list_all2 (\<lambda>r i. budget_display_spec (Movie.budget r) (MovieItem.budget i)) rows items"
    by (rule list_all2_mono) (use assms(2) in \<open>simp add: formatBudget_spec\<close>)
  with items show ?thesis
    by (simp add: settle_def)
qed

text \<open>
  C6, as amended: the rule holds for budgets up to \<open>2^53\<close>. Each of the four functions, when
  the store answers its statement and the genre text (for the detail, also the production
  company text) of the answer can be read, resolves, and the budget of every row of the
  answer is displayed in its item by the rule of the specification: \<^verbatim>\<open>N/A\<close> for none, \<^verbatim>\<open>$0\<close>
  for zero, and for \<open>0 < n \<le> 2^53\<close> a dollar sign followed by the decimal numeral of \<open>n\<close>.
  The rows the SQLite store answers with carry the stored budget: none for NULL, and \<open>n\<close>
  itself for a stored \<open>n\<close> from 0 to \<open>2^53\<close>.
\<close>

theorem budget_display_everywhere:
  "(moviesDb_all db (SelectPage (Finite 50) (js_times (js_minus (Finite p) 1) 50)) = Inr rows \<and>
    (\<forall>r \<in> set rows. parses parse (Movie.genres r)) \<longrightarrow>
      (\<exists>items. fst (getPaginatedMovies parse db p) = Resolved items \<and>
         list_all2 (\<lambda>r i. budget_display_spec (Movie.budget r) (MovieItem.budget i)) rows items)) \<and>
   (moviesDb_all db (SelectByYear s y (Finite 50) (js_times (js_minus (Finite p) 1) 50)) = Inr rows \<and>
    (\<forall>r \<in> set rows. well_formed parse (Movie.genres r)) \<longrightarrow>
      (\<exists>items. fst (getMoviesByYear parse db y p s) = Resolved items \<and>
         list_all2 (\<lambda>r i. budget_display_spec (Movie.budget r) (MovieItem.budget i)) rows items)) \<and>
   (moviesDb_all db (SelectByGenre (''%'' @ g @ ''%'') (Finite 50)
        (js_times (js_minus (Finite p) 1) 50)) = Inr rows \<and>
    (\<forall>r \<in> set rows. well_formed parse (Movie.genres r)) \<longrightarrow>
      (\<exists>items. fst (getMoviesByGenre parse db g p) = Resolved items \<and>
         list_all2 (\<lambda>r i. budget_display_spec (Movie.budget r) (MovieItem.budget i)) rows items)) \<and>
   (moviesDb_get db pid = Inr (Some row) \<and> ratingsDb_get db (MovieRow.movieId row) = Inr avg \<and>
    well_formed parse (MovieRow.genres row) \<and>
    well_formed parse (MovieRow.productionCompanies row) \<longrightarrow>
      (\<exists>d. fst (getMovieDetailsByImdbId parse db pid) = Resolved (Some d) \<and>
         budget_display_spec (MovieRow.budget row) (MovieDetails.budget d))) \<and>
   (MovieRow.budget r = None \<longrightarrow>
      Movie.budget (select_columns r) = None \<and> MovieRow.budget (detail_columns r) = None) \<and>
   (\<forall>n. MovieRow.budget r = Some n \<and> 0 \<le> n \<and> n \<le> 2 ^ 53 \<longrightarrow>
      Movie.budget (select_columns r) = Some n \<and> MovieRow.budget (detail_columns r) = Some n)"
proof (intro conjI impI allI; (elim conjE)?)
  assume "moviesDb_all db (SelectPage (Finite 50) (js_times (js_minus (Finite p) 1) 50)) = Inr rows"
    and "\<forall>r \<in> set rows. parses parse (Movie.genres r)"
  then show "\<exists>items. fst (getPaginatedMovies parse db p) = Resolved items \<and>
      list_all2 (\<lambda>r i. budget_display_spec (Movie.budget r) (MovieItem.budget i)) rows items"
    using budgets_of_rows [of rows "formatMovie parse"]
    by (simp add: getPaginatedMovies_def Let_def formatMovie_total formatMovie_budget)
next
  assume "moviesDb_all db (SelectByYear s y (Finite 50) (js_times (js_minus (Finite p) 1) 50)) =
      Inr rows"
    and "\<forall>r \<in> set rows. well_formed parse (Movie.genres r)"
  then show "\<exists>items. fst (getMoviesByYear parse db y p s) = Resolved items \<and>
      list_all2 (\<lambda>r i. budget_display_spec (Movie.budget r) (MovieItem.budget i)) rows items"
    using budgets_of_rows [of rows "formatRow parse"]
    by (simp add: getMoviesByYear_def Let_def formatRow_total formatRow_budget)
next
  assume "moviesDb_all db (SelectByGenre (''%'' @ g @ ''%'') (Finite 50)
        (js_times (js_minus (Finite p) 1) 50)) = Inr rows"
    and "\<forall>r \<in> set rows. well_formed parse (Movie.genres r)"
  then show "\<exists>items. fst (getMoviesByGenre parse db g p) = Resolved items \<and>
      list_all2 (\<lambda>r i. budget_display_spec (Movie.budget r) (MovieItem.budget i)) rows items"
    using budgets_of_rows [of rows "formatRow parse"]
    by (simp add: getMoviesByGenre_def Let_def formatRow_total formatRow_budget)
next
  assume "moviesDb_get db pid = Inr (Some row)"
    and "ratingsDb_get db (MovieRow.movieId row) = Inr avg"
    and "well_formed parse (MovieRow.genres row)"
    and "well_formed parse (MovieRow.productionCompanies row)"
  then show "\<exists>d. fst (getMovieDetailsByImdbId parse db pid) = Resolved (Some d) \<and>
      budget_display_spec (MovieRow.budget row) (MovieDetails.budget d)"
    by (auto simp: getMovieDetailsByImdbId_def Let_def well_formed_def parse_or_empty_def
        JSON_parse_def formatBudget_spec split: option.splits)
next
  assume "MovieRow.budget r = None"
  then show "Movie.budget (select_columns r) = None" "MovieRow.budget (detail_columns r) = None"
    by (simp_all add: select_columns_def detail_columns_def)
next
  fix n
  assume "MovieRow.budget r = Some n" "0 \<le> n" "n \<le> 2 ^ 53"
  then show "Movie.budget (select_columns r) = Some n"
    "MovieRow.budget (detail_columns r) = Some n"
    by (simp_all add: select_columns_def detail_columns_def round53_exact)
qed

theorem budget_display_everywhere_witness:
  "\<exists>page_items year_items genre_items d.
     fst (getPaginatedMovies sample_parse (sqlite [row1, row2, row0] []) 1) =
       Resolved page_items \<and>
     map MovieItem.budget page_items = [''$1000000'', ''N/A'', ''$0''] \<and>
     list_all2 (\<lambda>r i. budget_display_spec (Movie.budget r) (MovieItem.budget i))
       (map select_columns [row1, row2, row0]) page_items \<and>
     fst (getMoviesByYear sample_parse (sqlite [row1, row2, row0] []) ''2005'' 1 Desc) =
       Resolved year_items \<and>
     map MovieItem.budget year_items = [''$0'', ''$1000000''] \<and>
     list_all2 (\<lambda>r i. budget_display_spec (Movie.budget r) (MovieItem.budget i))
       (map select_columns [row0, row1]) year_items \<and>
     fst (getMoviesByGenre sample_parse (sqlite [row1, row2, row0] []) ''action'' 1) =
       Resolved genre_items \<and>
     map MovieItem.budget genre_items = [''$1000000''] \<and>
     list_all2 (\<lambda>r i. budget_display_spec (Movie.budget r) (MovieItem.budget i))
       (map select_columns [row1]) genre_items \<and>
     fst (getMovieDetailsByImdbId sample_parse (sqlite [row1, row2, row0] []) ''tt7654321'') =
       Resolved (Some d) \<and>
     MovieDetails.budget d = ''$1000000'' \<and>
     budget_display_spec (MovieRow.budget row1) (MovieDetails.budget d) \<and>
     MovieRow.budget row1 = Some 1000000 \<and>
     Movie.budget (select_columns row1) = Some 1000000 \<and>
     MovieRow.budget (detail_columns row1) = Some 1000000 \<and>
     MovieRow.budget row2 = None \<and>
     Movie.budget (select_columns row2) = None \<and>
     MovieRow.budget (detail_columns row2) = None"
proof -
  let ?db = "sqlite [row1, row2, row0] []"
  let ?shown = "\<lambda>r i. budget_display_spec (Movie.budget r) (MovieItem.budget i)"
  have page: "moviesDb_all ?db (SelectPage (Finite 50) (js_times (js_minus (Finite 1) 1) 50)) =
      Inr (map select_columns [row1, row2, row0])"
    by (simp add: sqlite_def sqlite_movies_all_def first_pages limit_offset_examples)
  have year: "moviesDb_all ?db
      (SelectByYear Desc ''2005'' (Finite 50) (js_times (js_minus (Finite 1) 1) 50)) =
      Inr (map select_columns [row0, row1])"
    by (simp add: sqlite_def first_pages year_query_examples)
  have genre: "moviesDb_all ?db
      (SelectByGenre (''%'' @ ''action'' @ ''%'') (Finite 50)
         (js_times (js_minus (Finite 1) 1) 50)) =
      Inr (map select_columns [row1])"
    by (simp add: sqlite_def first_pages genre_query_examples)
  have found: "moviesDb_get ?db ''tt7654321'' = Inr (Some row1)"
    by (simp add: sqlite_def sqlite_movies_get_def detail_columns_def round53_exact row1_def
        row0_def)
  have avg: "ratingsDb_get ?db (MovieRow.movieId row1) = Inr (Some None)"
    by (simp add: sqlite_def samples_def AVG_def)
  have readable: "\<forall>r \<in> set (map select_columns [row1, row2, row0]).
      parses sample_parse (Movie.genres r)"
    by (simp add: parses_examples)
  have wf: "\<forall>r \<in> set (map select_columns [row0, row1]). well_formed sample_parse (Movie.genres r)"
    "\<forall>r \<in> set (map select_columns [row1]). well_formed sample_parse (Movie.genres r)"
    by (simp_all add: well_formed_examples)
  from budget_display_everywhere [where db = ?db and p = 1 and parse = sample_parse
      and rows = "map select_columns [row1, row2, row0]"] page readable
  obtain page_items where
    p1: "fst (getPaginatedMovies sample_parse ?db 1) = Resolved page_items"
    and p2: "list_all2 ?shown (map select_columns [row1, row2, row0]) page_items"
    by blast
  from budget_display_everywhere [where db = ?db and p = 1 and parse = sample_parse
      and rows = "map select_columns [row0, row1]" and s = Desc and y = "''2005''"] year wf(1)
  obtain year_items where
    y1: "fst (getMoviesByYear sample_parse ?db ''2005'' 1 Desc) = Resolved year_items"
    and y2: "list_all2 ?shown (map select_columns [row0, row1]) year_items"
    by blast
  from budget_display_everywhere [where db = ?db and p = 1 and parse = sample_parse
      and rows = "map select_columns [row1]" and g = "''action''"] genre wf(2)
  obtain genre_items where
    g1: "fst (getMoviesByGenre sample_parse ?db ''action'' 1) = Resolved genre_items"
    and g2: "list_all2 ?shown (map select_columns [row1]) genre_items"
    by blast
  from budget_display_everywhere [where db = ?db and parse = sample_parse
      and pid = "''tt7654321''" and row = row1 and avg = "Some None"]
    found avg well_formed_examples
  obtain d where
    d1: "fst (getMovieDetailsByImdbId sample_parse ?db ''tt7654321'') = Resolved (Some d)"
    and d2: "budget_display_spec (MovieRow.budget row1) (MovieDetails.budget d)"
    by blast
  have stored: "MovieRow.budget row1 = Some 1000000" "MovieRow.budget row2 = None"
    by (simp_all add: row1_def row2_def)
  from budget_display_everywhere [where r = row1] stored(1)
  have s1: "Movie.budget (select_columns row1) = Some 1000000 \<and>
      MovieRow.budget (detail_columns row1) = Some 1000000"
    by simp
  from budget_display_everywhere [where r = row2] stored(2)
  have s2: "Movie.budget (select_columns row2) = None \<and>
      MovieRow.budget (detail_columns row2) = None"
    by blast
  from p1 have p3: "map MovieItem.budget page_items = [''$1000000'', ''N/A'', ''$0'']"
    unfolding page_example by auto
  from y1 have y3: "map MovieItem.budget year_items = [''$0'', ''$1000000'']"
    unfolding year_example by auto
  from g1 have g3: "map MovieItem.budget genre_items = [''$1000000'']"
    unfolding genre_example by auto
  have "fst (getMovieDetailsByImdbId sample_parse ?db ''tt7654321'') =
      Resolved (Some
        \<lparr>MovieDetails.imdbId = ''tt7654321'', title = ''Test Movie'',
         description = Some ''A test movie.'', releaseDate = Some ''2005-01-15'',
         budget = ''$1000000'', runtime = Some 120, averageRating = None,
         genres = JArr [JObj [(''id'', JNum 28), (''name'', JStr ''Action'')]],
         originalLanguage = ''en'', productionCompanies = JArr []\<rparr>)"
    by (simp add: getMovieDetailsByImdbId_def example_simps samples_def AVG_def formatRating_def
        detail_columns_def round53_exact row1_def row0_def)
  with d1 have d3: "MovieDetails.budget d = ''$1000000''"
    by auto
  from p1 p3 p2 y1 y3 y2 g1 g3 g2 d1 d3 d2 stored s1 s2
  have "fst (getPaginatedMovies sample_parse ?db 1) = Resolved page_items \<and>
     map MovieItem.budget page_items = [''$1000000'', ''N/A'', ''$0''] \<and>
     list_all2 ?shown (map select_columns [row1, row2, row0]) page_items \<and>
     fst (getMoviesByYear sample_parse ?db ''2005'' 1 Desc) = Resolved year_items \<and>
     map MovieItem.budget year_items = [''$0'', ''$1000000''] \<and>
     list_all2 ?shown (map select_columns [row0, row1]) year_items \<and>
     fst (getMoviesByGenre sample_parse ?db ''action'' 1) = Resolved genre_items \<and>
     map MovieItem.budget genre_items = [''$1000000''] \<and>
     list_all2 ?shown (map select_columns [row1]) genre_items \<and>
     fst (getMovieDetailsByImdbId sample_parse ?db ''tt7654321'') = Resolved (Some d) \<and>
     MovieDetails.budget d = ''$1000000'' \<and>
     budget_display_spec (MovieRow.budget row1) (MovieDetails.budget d) \<and>
     MovieRow.budget row1 = Some 1000000 \<and>
     Movie.budget (select_columns row1) = Some 1000000 \<and>
     MovieRow.budget (detail_columns row1) = Some 1000000 \<and>
     MovieRow.budget row2 = None \<and>
     Movie.budget (select_columns row2) = None \<and>
     MovieRow.budget (detail_columns row2) = None"
    by (intro conjI) (simp_all only:)
  then show ?thesis
    by - (rule exI, rule exI, rule exI, rule exI, assumption)
qed

text \<open>
  C6 as stated fails above \<open>2^53\<close>: the stored budget 9007199254740993 reaches the function
  as the number 9007199254740992 and is displayed so.
\<close>

theorem budget_display_counterexample:
  "MovieRow.budget costly_row = Some 9007199254740993 \<and>
   fst (getPaginatedMovies sample_parse (sqlite [costly_row] []) 1) =
     Resolved
       [\<lparr>MovieItem.imdbId = ''tt1234567'', title = ''Test Movie'', genres = JNull,
         releaseDate = Some ''2005-03-01'', budget = ''$9007199254740992''\<rparr>]"
proof -
  have "round53 9007199254740993 = 9007199254740992"
    by (simp add: round53_def round53_nat_def shift53.simps Let_def)
  moreover have "Number_toString 9007199254740992 = ''9007199254740992''"
    by (simp add: Number_toString_exact digits_of.simps digit_char_def)
  ultimately show ?thesis
    by (simp add: getPaginatedMovies_def sqlite_def sqlite_movies_all_def first_pages
        limit_offset_examples settle_def formatMovie_def JSON_parse_def sample_parse_def
        formatBudget_def select_columns_def costly_row_def row0_def)
qed

subsection \<open>Filtering by year\<close>

lemma mset_insert_by: "mset (insert_by le x xs) = add_mset x (mset xs)"
  by (induction xs) auto

lemma mset_order_by: "mset (order_by le xs) = mset xs"
  by (induction xs) (auto simp: mset_insert_by)

lemma set_insert_by: "set (insert_by le x xs) = insert x (set xs)"
  using mset_insert_by [of le x xs] by (metis set_mset_add_mset_insert set_mset_mset)

lemma sorted_wrt_insert_by:
  assumes total: "\<And>a b. le a b \<or> le b a"
    and trans: "\<And>a b c. le a b \<Longrightarrow> le b c \<Longrightarrow> le a c"
    and "sorted_wrt le xs"
  shows "sorted_wrt le (insert_by le x xs)"
  using assms(3)
proof (induction xs)
  case Nil
  then show ?case by simp
next
  case (Cons y ys)
  show ?case
  proof (cases "le x y")
    case True
    with Cons.prems show ?thesis
      by (auto intro: trans)
  next
    case False
    with total [of x y] have "le y x" by blast
    with False Cons show ?thesis
      by (auto simp: set_insert_by)
  qed
qed

lemma sorted_wrt_order_by:
  assumes "\<And>a b. le a b \<or> le b a"
    and "\<And>a b c. le a b \<Longrightarrow> le b c \<Longrightarrow> le a c"
  shows "sorted_wrt le (order_by le xs)"
proof (induction xs)
  case Nil
  show ?case by simp
next
  case (Cons x xs)
  show ?case
    using sorted_wrt_insert_by [of le "order_by le xs" x, OF assms Cons.IH] by simp
qed

lemma sorted_by_releaseDate:
  "sorted_wrt (by_releaseDate s) (order_by (by_releaseDate s) xs)"
  by (rule sorted_wrt_order_by) (auto simp: by_releaseDate_def date_le_def split: sort_order.splits)

lemma releaseDate_order:
  "sorted_wrt (by_releaseDate s) xs =
     (case s of
        Asc \<Rightarrow> sorted (map MovieRow.releaseDate xs)
      | Desc \<Rightarrow> sorted (rev (map MovieRow.releaseDate xs)))"
proof -
  have "by_releaseDate s =
      (\<lambda>a b. date_le s (MovieRow.releaseDate a) (MovieRow.releaseDate b))"
    by (intro ext) (simp add: by_releaseDate_def)
  then show ?thesis
    by (cases s) (simp_all add: date_le_def sorted_map sorted_wrt_rev sorted_wrt_map)
qed

text \<open>
  C8, as amended. For every year text \<open>y\<close> (a 4-digit one in particular), sort order \<open>s\<close> and
  page \<open>p \<ge> 1\<close> with \<open>(p - 1) * 50 \<le> 2^53\<close>, on the SQLite store: the records whose release
  date has \<open>y\<close> as its leading four characters, all of them and no others, arranged by
  release date ascending or descending as \<open>s\<close> says, form a list \<open>matching\<close>. The function
  issues the year statement with limit 50 and offset \<open>(p - 1) * 50\<close> and nothing else, and the
  store delivers the 50 records of \<open>matching\<close> after the first \<open>(p - 1) * 50\<close>. If the genre
  text of each of these is NULL, empty or parses, the function resolves with one item for
  each, in that order, carrying its public id, title and release date; otherwise
  \<^verbatim>\<open>JSON.parse\<close> throws in the callback and the promise is not settled. When no release date
  starts with \<open>y\<close>, whatever \<open>y\<close> is, the result is the empty list, resolved: no error.
\<close>

theorem listByYear_selection:
  assumes "1 \<le> p" and "(p - 1) * 50 \<le> 2 ^ 53"
  shows "\<exists>matching.
      mset matching =
        mset (filter (\<lambda>r. map_option (\<lambda>date. substr date 4) (MovieRow.releaseDate r) = Some y)
          movies) \<and>
      (case s of
         Asc \<Rightarrow> sorted (map MovieRow.releaseDate matching)
       | Desc \<Rightarrow> sorted (rev (map MovieRow.releaseDate matching))) \<and>
      snd (getMoviesByYear parse (sqlite movies ratings) y p s) =
        [MoviesAll (SelectByYear s y (Finite 50) (Finite ((p - 1) * 50)))] \<and>
      moviesDb_all (sqlite movies ratings)
          (SelectByYear s y (Finite 50) (Finite ((p - 1) * 50))) =
        Inr (map select_columns (take 50 (drop (nat ((p - 1) * 50)) matching))) \<and>
      (if \<forall>r \<in> set (take 50 (drop (nat ((p - 1) * 50)) matching)).
            well_formed parse (MovieRow.genres r)
       then \<exists>items.
              fst (getMoviesByYear parse (sqlite movies ratings) y p s) = Resolved items \<and>
              list_all2 presents (take 50 (drop (nat ((p - 1) * 50)) matching)) items
       else fst (getMoviesByYear parse (sqlite movies ratings) y p s) = Thrown SyntaxError) \<and>
      (matching = [] \<longrightarrow>
         fst (getMoviesByYear parse (sqlite movies ratings) y p s) = Resolved [])"
proof -
  define matching where
    "matching = order_by (by_releaseDate s) (filter (year_matches y) movies)"
  let ?page = "take 50 (drop (nat ((p - 1) * 50)) matching)"
  let ?q = "SelectByYear s y (Finite 50) (Finite ((p - 1) * 50))"
  from assms have k: "0 \<le> (p - 1) * 50"
    by simp
  have year: "year_matches y =
      (\<lambda>r. map_option (\<lambda>date. substr date 4) (MovieRow.releaseDate r) = Some y)"
    by (intro ext) (simp add: year_matches_def)
  have "mset matching =
      mset (filter (\<lambda>r. map_option (\<lambda>date. substr date 4) (MovieRow.releaseDate r) = Some y)
        movies)"
    unfolding matching_def mset_order_by year ..
  moreover have "case s of
         Asc \<Rightarrow> sorted (map MovieRow.releaseDate matching)
       | Desc \<Rightarrow> sorted (rev (map MovieRow.releaseDate matching))"
    using sorted_by_releaseDate [of s "filter (year_matches y) movies"]
    unfolding matching_def releaseDate_order .
  moreover have store: "moviesDb_all (sqlite movies ratings) ?q = Inr (map select_columns ?page)"
    unfolding matching_def
    using k assms(2) by (simp add: sqlite_def sqlite_movies_all_def limit_offset_page)
  moreover have run: "getMoviesByYear parse (sqlite movies ratings) y p s =
      (case moviesDb_all (sqlite movies ratings) ?q of
         Inl e \<Rightarrow> Rejected e
       | Inr rows \<Rightarrow> settle (map_rows (formatRow parse) rows),
       [MoviesAll ?q])"
    by (simp add: getMoviesByYear_def Let_def page_offset_exact [OF assms])
  then have result: "fst (getMoviesByYear parse (sqlite movies ratings) y p s) =
      settle (map_rows (formatRow parse) (map select_columns ?page))"
    unfolding store by simp
  moreover have "snd (getMoviesByYear parse (sqlite movies ratings) y p s) = [MoviesAll ?q]"
    unfolding run by simp
  moreover have "if \<forall>r \<in> set ?page. well_formed parse (MovieRow.genres r)
       then \<exists>items.
              fst (getMoviesByYear parse (sqlite movies ratings) y p s) = Resolved items \<and>
              list_all2 presents ?page items
       else fst (getMoviesByYear parse (sqlite movies ratings) y p s) = Thrown SyntaxError"
    unfolding result by (rule filtered_page_items)
  moreover have "fst (getMoviesByYear parse (sqlite movies ratings) y p s) = Resolved []"
    if "matching = []"
    unfolding result using that by (simp add: settle_def)
  ultimately show ?thesis
    by blast
qed

theorem listByYear_selection_witness:
  "(1::int) \<le> 1 \<and> ((1::int) - 1) * 50 \<le> 2 ^ 53 \<and>
   (\<exists>matching.
      mset matching =
        mset (filter (\<lambda>r. map_option (\<lambda>date. substr date 4) (MovieRow.releaseDate r) =
                Some ''2005'') [row1, row2, row0]) \<and>
      sorted (rev (map MovieRow.releaseDate matching)) \<and>
      (\<exists>items.
         fst (getMoviesByYear sample_parse (sqlite [row1, row2, row0] []) ''2005'' 1 Desc) =
           Resolved items \<and>
         list_all2 presents (take 50 (drop (nat ((1 - 1) * 50)) matching)) items)) \<and>
   map MovieItem.imdbId
     (case fst (getMoviesByYear sample_parse (sqlite [row1, row2, row0] []) ''2005'' 1 Desc) of
        Resolved items \<Rightarrow> items | _ \<Rightarrow> []) = [''tt1234567'', ''tt7654321'']"
proof -
  let ?run = "fst (getMoviesByYear sample_parse (sqlite [row1, row2, row0] []) ''2005'' 1 Desc)"
  have b: "(1::int) \<le> 1" "((1::int) - 1) * 50 \<le> 2 ^ 53"
    by simp_all
  from listByYear_selection [OF b, of "''2005''" "[row1, row2, row0]" Desc sample_parse "[]"]
  obtain matching where
    m: "mset matching =
        mset (filter (\<lambda>r. map_option (\<lambda>date. substr date 4) (MovieRow.releaseDate r) =
                Some ''2005'') [row1, row2, row0])"
    and s: "sorted (rev (map MovieRow.releaseDate matching))"
    and r: "if \<forall>r \<in> set (take 50 (drop (nat ((1 - 1) * 50)) matching)).
            well_formed sample_parse (MovieRow.genres r)
       then \<exists>items. ?run = Resolved items \<and>
              list_all2 presents (take 50 (drop (nat ((1 - 1) * 50)) matching)) items
       else ?run = Thrown SyntaxError"
    by auto
  have "?run \<noteq> Thrown SyntaxError"
    by (simp add: year_example)
  with r have "\<exists>items. ?run = Resolved items \<and>
      list_all2 presents (take 50 (drop (nat ((1 - 1) * 50)) matching)) items"
    by (simp split: if_splits)
  with m s have "\<exists>matching.
      mset matching =
        mset (filter (\<lambda>r. map_option (\<lambda>date. substr date 4) (MovieRow.releaseDate r) =
                Some ''2005'') [row1, row2, row0]) \<and>
      sorted (rev (map MovieRow.releaseDate matching)) \<and>
      (\<exists>items. ?run = Resolved items \<and>
         list_all2 presents (take 50 (drop (nat ((1 - 1) * 50)) matching)) items)"
    by blast
  with b show ?thesis
    by (simp add: year_example)
qed

text \<open>
  C8 as stated fails in two ways. For page \<open>10^17\<close> the offset requested is
  5000000000000000000 and not \<open>(p - 1) * 50\<close>, and for page \<open>2 * 10^17\<close> the store refuses the
  statement. And when a record of the year has genre text that is not JSON, nothing is
  returned: the callback throws.
\<close>

theorem listByYear_counterexample:
  "snd (getMoviesByYear sample_parse (sqlite [row0] []) ''2005'' 100000000000000000 Asc) =
     [MoviesAll (SelectByYear Asc ''2005'' (Finite 50) (Finite 5000000000000000000))] \<and>
   (100000000000000000 - 1) * 50 = (4999999999999999950 :: int) \<and>
   fst (getMoviesByYear sample_parse (sqlite [row0] []) ''2005'' 200000000000000000 Asc) =
     Rejected (StoreError ''SQLITE_MISMATCH: datatype mismatch'') \<and>
   MovieRow.releaseDate malformed_row = Some ''2005-01-15'' \<and>
   fst (getMoviesByYear sample_parse (sqlite [malformed_row] []) ''2005'' 1 Asc) =
     Thrown SyntaxError"
proof -
  have "fst (getMoviesByYear sample_parse (sqlite [malformed_row] []) ''2005'' 1 Asc) =
      Thrown SyntaxError"
    by (simp add: getMoviesByYear_def sqlite_def first_pages year_query_examples example_items
        settle_def)
  moreover have "MovieRow.releaseDate malformed_row = Some ''2005-01-15''"
    by (simp add: malformed_row_def row1_def)
  ultimately show ?thesis
    by (simp add: getMoviesByYear_def big_page sqlite_def sqlite_movies_all_def Let_def
        limit_offset_def must_be_int_def datatype_mismatch_def)
qed

subsection \<open>Filtering by genre\<close>

text \<open>
  The characters of a pattern \<^verbatim>\<open>%g%\<close>, for a \<open>g\<close> without NUL byte: those of \<open>g\<close> between two
  \<^verbatim>\<open>%\<close>. If \<open>g\<close> has no byte \<^verbatim>\<open>%\<close> or \<^verbatim>\<open>_\<close> either, none of its characters is a wildcard.
\<close>

lemma takeWhile_snoc_stop: "\<not> P x \<Longrightarrow> takeWhile P (bs @ [x]) = takeWhile P bs"
  by (induction bs) simp_all

lemma dropWhile_snoc_stop: "\<not> P x \<Longrightarrow> dropWhile P (bs @ [x]) = dropWhile P bs @ [x]"
  by (induction bs) simp_all

lemma utf8_chars_snoc:
  assumes "(of_char x :: nat) < 128"
  shows "utf8_chars (bs @ [x]) = utf8_chars bs @ [[x]]"
proof (induction bs rule: utf8_chars.induct)
  case 1
  from assms show ?case by simp
next
  case (2 b bs)
  from assms have "\<not> is_continuation x"
    by (simp add: is_continuation_def)
  with 2 show ?case
    by (simp add: takeWhile_snoc_stop dropWhile_snoc_stop)
qed

lemma code_point_single: "(of_char c :: nat) < 192 \<Longrightarrow> code_point [c] = of_char c"
  by (simp add: code_point_def)

lemma utf8_codes_pattern:
  assumes "CHR 0x00 \<notin> set g"
  shows "utf8_codes (''%'' @ g @ ''%'') = 37 # utf8_codes g @ [37]"
proof -
  from assms have "c_string (''%'' @ g @ ''%'') = ''%'' @ g @ ''%''" "c_string g = g"
    by (simp_all add: c_string_plain)
  moreover have "utf8_chars (''%'' @ g @ ''%'') = ''%'' # utf8_chars g @ [''%'']"
    using utf8_chars_snoc [of "CHR ''%''" g] by simp
  ultimately show ?thesis
    by (simp add: utf8_codes_def code_point_single)
qed

lemma code_point_ascii:
  assumes "ch \<in> set (utf8_chars s)" and "code_point ch < 128"
  shows "\<exists>b \<in> set s. code_point ch = of_char b"
  using assms
proof (induction s rule: utf8_chars.induct)
  case 1
  then show ?case by simp
next
  case (2 b bs)
  show ?case
  proof (cases "(192 :: nat) \<le> of_char b")
    case True
    have "128 \<le> code_point (b # takeWhile is_continuation bs)"
      using True by (simp add: code_point_def Let_def)
    with 2 True have "ch \<in> set (utf8_chars (dropWhile is_continuation bs))"
      by auto
    with 2 True obtain b' where "b' \<in> set (dropWhile is_continuation bs)"
      "code_point ch = of_char b'"
      by blast
    then show ?thesis
      by (auto dest: set_dropWhileD)
  next
    case False
    with 2 show ?thesis
      by (auto simp: code_point_single)
  qed
qed

lemma utf8_codes_ascii_byte:
  assumes "x \<in> set (utf8_codes g)" and "x < 128"
  shows "\<exists>b \<in> set g. x = of_char b"
proof -
  from assms obtain ch where "ch \<in> set (utf8_chars (c_string g))" "x = code_point ch"
    by (auto simp: utf8_codes_def)
  with assms(2) code_point_ascii [of ch "c_string g"]
  obtain b where "b \<in> set (c_string g)" "x = of_char b"
    by auto
  then show ?thesis
    by (auto simp: c_string_def dest: set_takeWhileD)
qed

lemma no_wildcard_codes:
  assumes "CHR ''%'' \<notin> set g" and "CHR ''_'' \<notin> set g"
  shows "37 \<notin> set (utf8_codes g)" and "95 \<notin> set (utf8_codes g)"
proof -
  have "b = CHR ''%''" if "(37 :: nat) = of_char b" for b
  proof -
    from that have "(of_char (CHR ''%'') :: nat) = of_char b" by simp
    then show ?thesis by (simp only: of_char_eq_iff)
  qed
  with assms(1) utf8_codes_ascii_byte [of 37 g] show "37 \<notin> set (utf8_codes g)"
    by auto
  have "b = CHR ''_''" if "(95 :: nat) = of_char b" for b
  proof -
    from that have "(of_char (CHR ''_'') :: nat) = of_char b" by simp
    then show ?thesis by (simp only: of_char_eq_iff)
  qed
  with assms(2) utf8_codes_ascii_byte [of 95 g] show "95 \<notin> set (utf8_codes g)"
    by auto
qed

text \<open>
  What \<^verbatim>\<open>LIKE\<close> means for a pattern \<^verbatim>\<open>%g%\<close> whose \<open>g\<close> has no wildcard of its own: some
  stretch of the characters of the text equals those of \<open>g\<close> once the ASCII capitals of both
  are put in lower case.
\<close>

lemma fold_case_eq:
  "fold_case c = fold_case d \<longleftrightarrow> c = d \<or> (c < 128 \<and> d < 128 \<and> fold_case c = fold_case d)"
  by (auto simp: fold_case_def split: if_splits)

lemma like_percent_only: "like [37] s"
  by (induction s) simp_all

lemma like_percent: "like (37 # p) s \<longleftrightarrow> (\<exists>a b. s = a @ b \<and> like p b)"
proof (induction s)
  case Nil
  show ?case by simp
next
  case (Cons d s)
  show ?case
    by (auto simp: Cons Cons_eq_append_conv)
qed

lemma like_literal:
  assumes "37 \<notin> set g" and "95 \<notin> set g"
  shows "like (g @ p) s \<longleftrightarrow>
         (\<exists>a b. s = a @ b \<and> map fold_case a = map fold_case g \<and> like p b)"
  using assms
proof (induction g arbitrary: s)
  case Nil
  show ?case by simp
next
  case (Cons c g)
  then have c: "c \<noteq> 37" "c \<noteq> 95"
    and IH: "\<And>s. like (g @ p) s \<longleftrightarrow>
         (\<exists>a b. s = a @ b \<and> map fold_case a = map fold_case g \<and> like p b)"
    by auto
  show ?case
  proof (cases s)
    case Nil
    with c show ?thesis by simp
  next
    case (Cons d s')
    have "like ((c # g) @ p) (d # s') \<longleftrightarrow> fold_case c = fold_case d \<and> like (g @ p) s'"
      using c fold_case_eq [of c d] by simp
    also have "\<dots> \<longleftrightarrow> (\<exists>a b. d # s' = a @ b \<and>
        map fold_case a = map fold_case (c # g) \<and> like p b)"
      unfolding IH by (auto simp: Cons_eq_append_conv map_eq_Cons_conv) metis+
    finally show ?thesis
      using Cons by simp
  qed
qed

lemma like_contains:
  assumes "37 \<notin> set g" and "95 \<notin> set g"
  shows "like (37 # g @ [37]) s \<longleftrightarrow> sublist (map fold_case g) (map fold_case s)"
proof -
  have "like (37 # g @ [37]) s \<longleftrightarrow>
      (\<exists>a b c. s = a @ b @ c \<and> map fold_case b = map fold_case g)"
    using like_percent [of "g @ [37]" s] like_literal [OF assms, of "[37]"]
    by (auto simp: like_percent_only)
  also have "\<dots> \<longleftrightarrow> sublist (map fold_case g) (map fold_case s)"
    unfolding sublist_def by (auto simp: map_eq_append_conv append_eq_map_conv) metis+
  finally show ?thesis .
qed

lemma genre_matches_contains:
  assumes "CHR ''%'' \<notin> set g" and "CHR ''_'' \<notin> set g" and "CHR 0x00 \<notin> set g"
  shows "genre_matches (''%'' @ g @ ''%'') r \<longleftrightarrow>
     (\<exists>text. MovieRow.genres r = Some text \<and>
        sublist (map fold_case (utf8_codes g)) (map fold_case (utf8_codes text)))"
proof (cases "MovieRow.genres r")
  case None
  then show ?thesis
    by (simp add: genre_matches_def)
next
  case (Some t)
  have "genre_matches (''%'' @ g @ ''%'') r =
      like (37 # utf8_codes g @ [37]) (utf8_codes t)"
    unfolding genre_matches_def sql_like_def utf8_codes_pattern [OF assms(3)] Some by simp
  with like_contains [OF no_wildcard_codes [OF assms(1,2)]] Some show ?thesis
    by simp
qed

text \<open>
  C3, as amended. For every genre \<open>g\<close> of at most 49998 bytes and every page \<open>p \<ge> 1\<close> with
  \<open>(p - 1) * 50 \<le> 2^53\<close>, on the SQLite store, the function issues the genre statement with
  the pattern \<^verbatim>\<open>%g%\<close>, limit 50 and offset \<open>(p - 1) * 50\<close> and nothing else, and the store
  delivers the 50 records after the first \<open>(p - 1) * 50\<close>, in table order, among those whose
  genre text is not NULL and matches the pattern under \<^verbatim>\<open>LIKE\<close>. If the genre text of each of
  these is empty or parses, the function resolves with one item for each, in that order,
  carrying its public id, title and release date; otherwise \<^verbatim>\<open>JSON.parse\<close> throws in the
  callback and the promise is not settled. When \<open>g\<close> contains no \<^verbatim>\<open>%\<close>, no \<^verbatim>\<open>_\<close> and no NUL
  byte, a record matches exactly when the characters of its genre text (UTF-8, up to the
  first NUL byte) contain those of \<open>g\<close> as a contiguous run, up to the case of ASCII letters.
\<close>

theorem listByGenre_like_selection:
  assumes "1 \<le> p" and "(p - 1) * 50 \<le> 2 ^ 53" and "length g \<le> 49998"
  shows
    "snd (getMoviesByGenre parse (sqlite movies ratings) g p) =
       [MoviesAll (SelectByGenre (''%'' @ g @ ''%'') (Finite 50) (Finite ((p - 1) * 50)))] \<and>
     moviesDb_all (sqlite movies ratings)
         (SelectByGenre (''%'' @ g @ ''%'') (Finite 50) (Finite ((p - 1) * 50))) =
       Inr (map select_columns
         (take 50 (drop (nat ((p - 1) * 50))
            (filter (genre_matches (''%'' @ g @ ''%'')) movies)))) \<and>
     (if \<forall>r \<in> set (take 50 (drop (nat ((p - 1) * 50))
                        (filter (genre_matches (''%'' @ g @ ''%'')) movies))).
           well_formed parse (MovieRow.genres r)
      then \<exists>items.
             fst (getMoviesByGenre parse (sqlite movies ratings) g p) = Resolved items \<and>
             list_all2 presents
               (take 50 (drop (nat ((p - 1) * 50))
                  (filter (genre_matches (''%'' @ g @ ''%'')) movies))) items
      else fst (getMoviesByGenre parse (sqlite movies ratings) g p) = Thrown SyntaxError) \<and>
     (CHR ''%'' \<notin> set g \<and> CHR ''_'' \<notin> set g \<and> CHR 0x00 \<notin> set g \<longrightarrow>
        (\<forall>r. genre_matches (''%'' @ g @ ''%'') r \<longleftrightarrow>
             (\<exists>text. MovieRow.genres r = Some text \<and>
                sublist (map fold_case (utf8_codes g)) (map fold_case (utf8_codes text)))))"
proof -
  let ?page = "take 50 (drop (nat ((p - 1) * 50))
      (filter (genre_matches (''%'' @ g @ ''%'')) movies))"
  let ?q = "SelectByGenre (''%'' @ g @ ''%'') (Finite 50) (Finite ((p - 1) * 50))"
  from assms have k: "0 \<le> (p - 1) * 50"
    by simp
  have store: "moviesDb_all (sqlite movies ratings) ?q = Inr (map select_columns ?page)"
    using k assms(2,3) by (simp add: sqlite_def sqlite_movies_all_def limit_offset_page)
  have run: "getMoviesByGenre parse (sqlite movies ratings) g p =
      (case moviesDb_all (sqlite movies ratings) ?q of
         Inl e \<Rightarrow> Rejected e
       | Inr rows \<Rightarrow> settle (map_rows (formatRow parse) rows),
       [MoviesAll ?q])"
    by (simp add: getMoviesByGenre_def Let_def page_offset_exact [OF assms(1,2)])
  then have result: "fst (getMoviesByGenre parse (sqlite movies ratings) g p) =
      settle (map_rows (formatRow parse) (map select_columns ?page))"
    unfolding store by simp
  have "snd (getMoviesByGenre parse (sqlite movies ratings) g p) = [MoviesAll ?q]"
    unfolding run by simp
  moreover note store
  moreover have "if \<forall>r \<in> set ?page. well_formed parse (MovieRow.genres r)
      then \<exists>items.
             fst (getMoviesByGenre parse (sqlite movies ratings) g p) = Resolved items \<and>
             list_all2 presents ?page items
      else fst (getMoviesByGenre parse (sqlite movies ratings) g p) = Thrown SyntaxError"
    unfolding result by (rule filtered_page_items)
  moreover have "\<forall>r. genre_matches (''%'' @ g @ ''%'') r \<longleftrightarrow>
      (\<exists>text. MovieRow.genres r = Some text \<and>
         sublist (map fold_case (utf8_codes g)) (map fold_case (utf8_codes text)))"
    if "CHR ''%'' \<notin> set g \<and> CHR ''_'' \<notin> set g \<and> CHR 0x00 \<notin> set g"
    using that genre_matches_contains [of g] by blast
  ultimately show ?thesis
    by blast
qed

theorem listByGenre_like_selection_witness:
  "(1::int) \<le> 1 \<and> ((1::int) - 1) * 50 \<le> 2 ^ 53 \<and> length ''action'' \<le> 49998 \<and>
   CHR ''%'' \<notin> set ''action'' \<and> CHR ''_'' \<notin> set ''action'' \<and> CHR 0x00 \<notin> set ''action'' \<and>
   snd (getMoviesByGenre sample_parse (sqlite [row1, row2, row0] []) ''action'' 1) =
     [MoviesAll (SelectByGenre ''%action%'' (Finite 50) (Finite 0))] \<and>
   well_formed sample_parse (MovieRow.genres row1) \<and>
   (\<exists>items.
      fst (getMoviesByGenre sample_parse (sqlite [row1, row2, row0] []) ''action'' 1) =
        Resolved items \<and>
      list_all2 presents [row1] items) \<and>
   genre_matches (''%'' @ ''action'' @ ''%'') row1 \<and>
   (\<exists>text. MovieRow.genres row1 = Some text \<and>
      sublist (map fold_case (utf8_codes ''action'')) (map fold_case (utf8_codes text)))"
proof -
  let ?run = "fst (getMoviesByGenre sample_parse (sqlite [row1, row2, row0] []) ''action'' 1)"
  let ?page = "take 50 (drop (nat ((1 - 1) * 50))
      (filter (genre_matches (''%'' @ ''action'' @ ''%'')) [row1, row2, row0]))"
  have b: "(1::int) \<le> 1" "((1::int) - 1) * 50 \<le> 2 ^ 53" "length ''action'' \<le> 49998"
    by simp_all
  have literal: "CHR ''%'' \<notin> set ''action'' \<and> CHR ''_'' \<notin> set ''action'' \<and>
      CHR 0x00 \<notin> set ''action''"
    by simp
  have m: "genre_matches (''%'' @ ''action'' @ ''%'') row1"
    by (simp add: genre_matches_examples)
  have page: "?page = [row1]"
    by (simp add: genre_matches_examples)
  have wf: "well_formed sample_parse (MovieRow.genres row1)"
    by (simp add: well_formed_def sample_parse_def row1_def)
  note run = listByGenre_like_selection [OF b, of sample_parse "[row1, row2, row0]" "[]"]
  from run have calls:
    "snd (getMoviesByGenre sample_parse (sqlite [row1, row2, row0] []) ''action'' 1) =
       [MoviesAll (SelectByGenre ''%action%'' (Finite 50) (Finite 0))]"
    by simp
  from run have "if \<forall>r \<in> set ?page. well_formed sample_parse (MovieRow.genres r)
      then \<exists>items. ?run = Resolved items \<and> list_all2 presents ?page items
      else ?run = Thrown SyntaxError"
    by blast
  then have items: "\<exists>items. ?run = Resolved items \<and> list_all2 presents [row1] items"
    unfolding page using wf by simp
  from run literal m
  have "\<exists>text. MovieRow.genres row1 = Some text \<and>
      sublist (map fold_case (utf8_codes ''action'')) (map fold_case (utf8_codes text))"
    by blast
  with b literal calls wf items m show ?thesis
    by blast
qed

text \<open>
  C3 as stated fails in each of these ways. The genre \<^verbatim>\<open>action\<close> is no case-sensitive
  substring of the genre text of \<open>row1\<close>, and the function returns that record all the same.
  So does it for the genre \<^verbatim>\<open>A_tion\<close>, whose \<^verbatim>\<open>_\<close> stands for any character, and for a genre
  made of \<^verbatim>\<open>]\<close>, a NUL and \<^verbatim>\<open>z\<close>, whose pattern ends at the NUL, although the text contains
  neither of the two in any letter case. For page \<open>10^17\<close> the offset requested is
  5000000000000000000 and not \<open>(p - 1) * 50\<close>, and for page \<open>2 * 10^17\<close> the store refuses the
  statement. When a matching record has genre text that is not JSON, nothing is returned: the
  callback throws. And the store refuses a genre of 50000 bytes.
\<close>

theorem listByGenre_counterexample:
  "MovieRow.genres row1 = Some ''[{\"id\":28,\"name\":\"Action\"}]'' \<and>
   \<not> sublist ''action'' ''[{\"id\":28,\"name\":\"Action\"}]'' \<and>
   fst (getMoviesByGenre sample_parse (sqlite [row1, row2, row0] []) ''action'' 1) =
     Resolved
       [\<lparr>MovieItem.imdbId = ''tt7654321'', title = ''Test Movie'',
         genres = JArr [JObj [(''id'', JNum 28), (''name'', JStr ''Action'')]],
         releaseDate = Some ''2005-01-15'', budget = ''$1000000''\<rparr>] \<and>
   \<not> sublist (map (fold_case \<circ> of_char) ''A_tion'')
       (map (fold_case \<circ> of_char) ''[{\"id\":28,\"name\":\"Action\"}]'') \<and>
   fst (getMoviesByGenre sample_parse (sqlite [row1, row2, row0] []) ''A_tion'' 1) =
     Resolved
       [\<lparr>MovieItem.imdbId = ''tt7654321'', title = ''Test Movie'',
         genres = JArr [JObj [(''id'', JNum 28), (''name'', JStr ''Action'')]],
         releaseDate = Some ''2005-01-15'', budget = ''$1000000''\<rparr>] \<and>
   \<not> sublist (map (fold_case \<circ> of_char) [CHR '']'', CHR 0x00, CHR ''z''])
       (map (fold_case \<circ> of_char) ''[{\"id\":28,\"name\":\"Action\"}]'') \<and>
   fst (getMoviesByGenre sample_parse (sqlite [row1, row2, row0] [])
          [CHR '']'', CHR 0x00, CHR ''z''] 1) =
     Resolved
       [\<lparr>MovieItem.imdbId = ''tt7654321'', title = ''Test Movie'',
         genres = JArr [JObj [(''id'', JNum 28), (''name'', JStr ''Action'')]],
         releaseDate = Some ''2005-01-15'', budget = ''$1000000''\<rparr>,
        \<lparr>MovieItem.imdbId = ''tt0000002'', title = ''Test Movie'', genres = JArr [],
         releaseDate = Some ''1999-12-31'', budget = ''N/A''\<rparr>] \<and>
   snd (getMoviesByGenre sample_parse (sqlite [row1] []) ''Action'' 100000000000000000) =
     [MoviesAll (SelectByGenre ''%Action%'' (Finite 50) (Finite 5000000000000000000))] \<and>
   (100000000000000000 - 1) * 50 = (4999999999999999950 :: int) \<and>
   fst (getMoviesByGenre sample_parse (sqlite [row1] []) ''Action'' 200000000000000000) =
     Rejected (StoreError ''SQLITE_MISMATCH: datatype mismatch'') \<and>
   fst (getMoviesByGenre sample_parse (sqlite [malformed_row] []) ''json'' 1) =
     Thrown SyntaxError \<and>
   fst (getMoviesByGenre sample_parse (sqlite [row1] []) (replicate 50000 CHR ''a'') 1) =
     Rejected (StoreError ''SQLITE_ERROR: LIKE or GLOB pattern too complex'')"
proof -
  let ?text = "''[{\"id\":28,\"name\":\"Action\"}]''"
  have "MovieRow.genres row1 = Some ?text"
    by (simp add: row1_def)
  moreover have "\<not> sublist ''action'' ?text"
    by (simp add: sublist_Cons_right prefix_Cons)
  moreover have "\<not> sublist (map (fold_case \<circ> of_char) ''A_tion'')
      (map (fold_case \<circ> of_char) ?text)"
    by (auto dest!: set_mono_sublist simp: fold_case_def)
  moreover have "\<not> sublist (map (fold_case \<circ> of_char) [CHR '']'', CHR 0x00, CHR ''z''])
      (map (fold_case \<circ> of_char) ?text)"
    by (auto dest!: set_mono_sublist simp: fold_case_def)
  moreover have "fst (getMoviesByGenre sample_parse (sqlite [row1, row2, row0] []) ''A_tion'' 1) =
     Resolved
       [\<lparr>MovieItem.imdbId = ''tt7654321'', title = ''Test Movie'',
         genres = JArr [JObj [(''id'', JNum 28), (''name'', JStr ''Action'')]],
         releaseDate = Some ''2005-01-15'', budget = ''$1000000''\<rparr>]"
    by (simp add: getMoviesByGenre_def sqlite_def first_pages genre_query_examples example_items
        settle_def)
  moreover have "fst (getMoviesByGenre sample_parse (sqlite [row1, row2, row0] [])
          [CHR '']'', CHR 0x00, CHR ''z''] 1) =
     Resolved
       [\<lparr>MovieItem.imdbId = ''tt7654321'', title = ''Test Movie'',
         genres = JArr [JObj [(''id'', JNum 28), (''name'', JStr ''Action'')]],
         releaseDate = Some ''2005-01-15'', budget = ''$1000000''\<rparr>,
        \<lparr>MovieItem.imdbId = ''tt0000002'', title = ''Test Movie'', genres = JArr [],
         releaseDate = Some ''1999-12-31'', budget = ''N/A''\<rparr>]"
    by (simp add: getMoviesByGenre_def sqlite_def first_pages genre_query_examples example_items
        settle_def)
  moreover have "snd (getMoviesByGenre sample_parse (sqlite [row1] []) ''Action''
        100000000000000000) =
     [MoviesAll (SelectByGenre ''%Action%'' (Finite 50) (Finite 5000000000000000000))]"
    by (simp add: getMoviesByGenre_def big_page Let_def)
  moreover have "fst (getMoviesByGenre sample_parse (sqlite [row1] []) ''Action''
        200000000000000000) =
     Rejected (StoreError ''SQLITE_MISMATCH: datatype mismatch'')"
    by (simp add: getMoviesByGenre_def big_page sqlite_def sqlite_movies_all_def Let_def
        limit_offset_def must_be_int_def datatype_mismatch_def)
  moreover have "fst (getMoviesByGenre sample_parse (sqlite [malformed_row] []) ''json'' 1) =
     Thrown SyntaxError"
    by (simp add: getMoviesByGenre_def sqlite_def first_pages genre_query_examples example_items
        settle_def)
  moreover have "fst (getMoviesByGenre sample_parse (sqlite [row1] [])
        (replicate 50000 CHR ''a'') 1) =
     Rejected (StoreError ''SQLITE_ERROR: LIKE or GLOB pattern too complex'')"
    by (simp add: getMoviesByGenre_def sqlite_def sqlite_movies_all_def first_pages
        limit_offset_examples pattern_too_complex_def Let_def)
  ultimately show ?thesis
    using genre_example by simp
qed

subsection \<open>The internal id\<close>




lemma select_columns_renumber [simp]: "select_columns (renumber_movie h r) = select_columns r"
  by (simp add: select_columns_def renumber_movie_def)





lemma detail_example:
  "getMovieDetailsByImdbId sample_parse (sqlite [row0, row1, row2] sample_ratings) ''tt7654321'' =
     (Resolved (Some
        \<lparr>MovieDetails.imdbId = ''tt7654321'', title = ''Test Movie'',
         description = Some ''A test movie.'', releaseDate = Some ''2005-01-15'',
         budget = ''$1000000'', runtime = Some 120, averageRating = Some (43 / 10),
         genres = JArr [JObj [(''id'', JNum 28), (''name'', JStr ''Action'')]],
         originalLanguage = ''en'', productionCompanies = JArr []\<rparr>),
      [MoviesGet ''tt7654321'', RatingsGet 2])"
proof -
  have "formatRating (Some (AVG [4, 4, 5])) = Some (43 / 10)"
    by (rule averageRating_examples)
  then show ?thesis
    by (simp add: getMovieDetailsByImdbId_def example_simps sample_ratings_def samples_def
        detail_columns_def round53_exact row0_def row1_def row2_def)
qed


end
